theory Spec2Isabelle
  imports Complex_Main
begin

section \<open>The RPC dispatcher of \<open>rabbitmq/rpc_server.py\<close>\<close>

text \<open>
  A shallow embedding of \<open>RPCServer.serve\<close>, of the closure \<open>reply\<close> it builds and of
  the handler \<open>echo\<close>. The calls made on the channel \<open>ch\<close> are recorded in order, an
  exception that leaves \<open>serve\<close> is a value, and the Python primitives the function
  relies on (\<open>in\<close>, subscription, \<open>getattr\<close>, \<open>inspect.signature\<close>, a call with
  keyword arguments) are modelled with the cases in which they raise. The logger calls
  have no effect on the channel and are left out.
\<close>

subsection \<open>Values\<close>

text \<open>What \<open>decode_json\<close> returns: a JSON value. A Python dict has one value per key.\<close>

datatype json =
    JNull
  | JBool bool
  | JInt int
  | JFloat real
  | JStr string
  | JArr "json list"
  | JObj "string \<rightharpoonup> json"

datatype error = TypeError | ValueError | KeyError | Exc string

text \<open>\<open>METHOD_ATTRIBUTE\<close> and \<open>ARGS_ATTRIBUTE\<close>, lines 10 and 11.\<close>

definition METHOD_ATTRIBUTE :: string where
  "METHOD_ATTRIBUTE = ''method''"

definition ARGS_ATTRIBUTE :: string where
  "ARGS_ATTRIBUTE = ''args''"

subsection \<open>Python primitives\<close>

text \<open>\<open>k in s\<close> for two strings: \<open>k\<close> occurs in \<open>s\<close> as a contiguous substring.\<close>

fun substring :: "string \<Rightarrow> string \<Rightarrow> bool" where
  "substring k [] = (k = [])"
| "substring k (c # s) = (take (length k) (c # s) = k \<or> substring k s)"

text \<open>\<open>x == k\<close> for a JSON value \<open>x\<close> and a string \<open>k\<close>: only an equal string is equal.\<close>

fun eq_str :: "string \<Rightarrow> json \<Rightarrow> bool" where
  "eq_str k (JStr s) = (s = k)"
| "eq_str k _ = False"

text \<open>
  \<open>k in container\<close> for a string \<open>k\<close>: key membership in a dict, element membership in a
  list, substring test in a string; \<open>None\<close>, booleans and numbers are not iterable.
\<close>

fun contains :: "string \<Rightarrow> json \<Rightarrow> error + bool" where
  "contains k (JObj m) = Inr (m k \<noteq> None)"
| "contains k (JArr xs) = Inr (list_ex (eq_str k) xs)"
| "contains k (JStr s) = Inr (substring k s)"
| "contains k _ = Inl TypeError"

text \<open>
  \<open>container[k]\<close> for a string \<open>k\<close>: the value of the key in a dict (\<open>KeyError\<close> when
  absent); a list or a string wants an integer index; nothing else is subscriptable.
\<close>

fun subscript :: "json \<Rightarrow> string \<Rightarrow> error + json" where
  "subscript (JObj m) k = (case m k of None \<Rightarrow> Inl KeyError | Some v \<Rightarrow> Inr v)"
| "subscript _ k = Inl TypeError"

subsection \<open>Signatures and attributes\<close>

text \<open>A parameter of an \<open>inspect.Signature\<close>: its name, its kind, whether it has a default.\<close>

datatype kind =
  POSITIONAL_ONLY | POSITIONAL_OR_KEYWORD | VAR_POSITIONAL | KEYWORD_ONLY | VAR_KEYWORD

record param =
  name :: string
  kind :: kind
  has_default :: bool

text \<open>
  What a handler does once it runs: it calls \<open>reply_fun\<close> with a message, or raises. A
  handler that returns without replying is the empty list.
\<close>

datatype hstep = Reply_fun json | Raise error

text \<open>
  The value of an attribute of the server instance: \<open>None\<close>, an object that is not
  callable, a callable for which \<open>inspect.signature\<close> finds no signature, or a callable
  with the text \<open>str\<close> gives for it, the parameters of its signature (without \<open>self\<close>
  for a bound method) and its body, a function of the keyword arguments it is called with.
\<close>

datatype pyobj =
    PyNone
  | PyObject
  | PyBuiltin
  | PyCallable string "param list" "(string \<rightharpoonup> json) \<Rightarrow> hstep list"

text \<open>\<open>getattr(self, name, dflt)\<close> for a string \<open>name\<close>.\<close>

definition getattr :: "(string \<rightharpoonup> pyobj) \<Rightarrow> string \<Rightarrow> pyobj \<Rightarrow> pyobj" where
  "getattr self nm dflt = (case self nm of None \<Rightarrow> dflt | Some v \<Rightarrow> v)"

text \<open>\<open>inspect.signature(obj).parameters\<close>, in declaration order.\<close>

fun signature :: "pyobj \<Rightarrow> error + param list" where
  "signature (PyCallable text ps b) = Inr ps"
| "signature PyBuiltin = Inl ValueError"
| "signature _ = Inl TypeError"

text \<open>
  Whether the call \<open>f(**kw, reply_fun=reply)\<close> binds, for \<open>f\<close> with parameters \<open>ps\<close>:
  \<open>reply_fun\<close> is not given twice; a keyword that names no positional-or-keyword or
  keyword-only parameter needs a \<open>**\<close> parameter to receive it; a positional-only
  parameter is not fed by a keyword, so it needs a default (and its name, passed as a
  keyword, a \<open>**\<close> parameter); a named parameter without default is given. \<open>ps\<close> are the
  parameters of the signature: the first parameter of the function behind a bound
  method is bound to the instance already and is not among them, and a key of \<open>args\<close>
  that names it (which the real call refuses) is treated here like any other key.
\<close>

definition has_var_keyword :: "param list \<Rightarrow> bool" where
  "has_var_keyword ps = list_ex (\<lambda>p. kind p = VAR_KEYWORD) ps"

definition keyword_names :: "param list \<Rightarrow> string list" where
  "keyword_names ps =
     map name (filter (\<lambda>p. kind p = POSITIONAL_OR_KEYWORD \<or> kind p = KEYWORD_ONLY) ps)"

definition binds :: "param list \<Rightarrow> (string \<rightharpoonup> json) \<Rightarrow> bool" where
  "binds ps kw \<longleftrightarrow>
     kw ''reply_fun'' = None \<and>
     (has_var_keyword ps \<or> insert ''reply_fun'' (dom kw) \<subseteq> set (keyword_names ps)) \<and>
     list_all (\<lambda>p. kind p = POSITIONAL_ONLY \<longrightarrow> has_default p \<and> has_var_keyword ps) ps \<and>
     list_all (\<lambda>p. (kind p = POSITIONAL_OR_KEYWORD \<or> kind p = KEYWORD_ONLY) \<and> \<not> has_default p
                 \<longrightarrow> name p = ''reply_fun'' \<or> kw (name p) \<noteq> None) ps"

subsection \<open>The channel and the outcome of \<open>serve\<close>\<close>

text \<open>
  A call on the channel \<open>ch\<close>: \<open>basic_publish(exchange, routing_key, properties, body)\<close>,
  of whose properties only \<open>correlation_id\<close> is set, or \<open>basic_ack(delivery_tag)\<close>.
\<close>

datatype 'b channel_call =
    basic_publish string string "string option" 'b
  | basic_ack nat

text \<open>The arguments \<open>method\<close> and \<open>props\<close> of \<open>serve\<close>, with the fields it reads.\<close>

record deliver =
  delivery_tag :: nat

record basic_properties =
  reply_to :: "string option"
  correlation_id :: "string option"

text \<open>
  What one run of \<open>serve\<close> did: the calls on the channel in order, the handler it
  entered (the method name and the keyword arguments taken from \<open>args\<close>), and the
  exception that left it, if any.
\<close>

record 'b effects =
  channel :: "'b channel_call list"
  invoked :: "(string \<times> (string \<rightharpoonup> json)) list"
  raised :: "error option"

definition returns :: "'b channel_call list \<Rightarrow> 'b effects" where
  "returns ops = \<lparr>channel = ops, invoked = [], raised = None\<rparr>"

definition raises :: "error \<Rightarrow> 'b effects" where
  "raises e = \<lparr>channel = [], invoked = [], raised = Some e\<rparr>"

subsection \<open>\<open>reply\<close>, lines 93 to 99\<close>

text \<open>
  The closure over \<open>ch\<close>, \<open>routing_key_reply\<close>, \<open>request_id\<close> and \<open>method.delivery_tag\<close>.
  \<open>encode_json\<close> is imported from \<open>rabbitmq.protocol\<close> and is a parameter here.
\<close>

definition reply ::
  "(json \<Rightarrow> 'b) \<Rightarrow> string \<Rightarrow> string option \<Rightarrow> deliver \<Rightarrow> json \<Rightarrow> 'b channel_call list" where
  "reply encode_json routing_key_reply request_id method msg =
     [basic_publish '''' routing_key_reply request_id (encode_json msg),
      basic_ack (delivery_tag method)]"

text \<open>The dict \<open>{"error": text}\<close>.\<close>

definition error_obj :: "string \<Rightarrow> json" where
  "error_obj text = JObj [''error'' \<mapsto> JStr text]"

subsection \<open>The loop over \<open>signature.parameters\<close>, lines 134 to 139\<close>

text \<open>
  The first parameter name, in declaration order, that is not \<open>reply_fun\<close> and not in
  \<open>args\<close>; \<open>and\<close> does not test \<open>args\<close> for \<open>reply_fun\<close>, and the test raises when \<open>args\<close>
  is not iterable.
\<close>

fun first_missing :: "param list \<Rightarrow> json \<Rightarrow> error + string option" where
  "first_missing [] args = Inr None"
| "first_missing (p # ps) args =
     (if name p \<noteq> ''reply_fun'' then
        (case contains (name p) args of
           Inl e \<Rightarrow> Inl e
         | Inr True \<Rightarrow> first_missing ps args
         | Inr False \<Rightarrow> Inr (Some (name p)))
      else first_missing ps args)"

subsection \<open>The call \<open>method_op(**args, reply_fun=reply)\<close>, line 144\<close>

text \<open>
  The body runs its steps: each \<open>reply_fun(msg)\<close> publishes and acknowledges, an
  exception ends the run and leaves \<open>serve\<close>.
\<close>

fun run_handler ::
  "(json \<Rightarrow> 'b channel_call list) \<Rightarrow> hstep list \<Rightarrow> 'b channel_call list \<times> error option" where
  "run_handler reply_fun [] = ([], None)"
| "run_handler reply_fun (Reply_fun msg # rest) =
     (case run_handler reply_fun rest of (ops, e) \<Rightarrow> (reply_fun msg @ ops, e))"
| "run_handler reply_fun (Raise e # rest) = ([], Some e)"

text \<open>
  \<open>**args\<close> wants a mapping, and the keywords must bind to the parameters; otherwise
  the call raises \<open>TypeError\<close> before the body is entered.
\<close>

definition call ::
  "string \<Rightarrow> pyobj \<Rightarrow> json \<Rightarrow> (json \<Rightarrow> 'b channel_call list) \<Rightarrow> 'b effects" where
  "call server_method method_op args reply_fun =
     (case args of
        JObj kw \<Rightarrow>
          (case method_op of
             PyCallable text ps b \<Rightarrow>
               if binds ps kw then
                 (case run_handler reply_fun (b kw) of
                    (ops, e) \<Rightarrow> \<lparr>channel = ops, invoked = [(server_method, kw)], raised = e\<rparr>)
               else raises TypeError
           | _ \<Rightarrow> raises TypeError)
      | _ \<Rightarrow> raises TypeError)"

subsection \<open>\<open>serve\<close>, lines 62 to 144\<close>

text \<open>
  \<open>decode_json\<close> is imported from \<open>rabbitmq.protocol\<close> and is a parameter: it returns
  the decoded value or raises. \<open>self\<close> is the table of the attributes of the instance.
  The function is cut at its comments into stages, each of which returns or goes on to
  the next; they are defined last stage first: the signature and the arguments (lines
  128 to 144), the \<open>args\<close> attribute (119 to 124), the method (102 to 116), and the
  decoding and the reply address (63 to 99). Once \<open>inspect.signature\<close> has returned,
  \<open>method_op\<close> is a callable, and the f-string of line 130 takes its text.
\<close>

definition check_signature ::
  "string \<Rightarrow> pyobj \<Rightarrow> json \<Rightarrow> (json \<Rightarrow> 'b channel_call list) \<Rightarrow> 'b effects" where
  "check_signature server_method method_op args reply_fun =
     (case signature method_op of
        Inl e \<Rightarrow> raises e
      | Inr parameters \<Rightarrow>
          (case method_op of
             PyCallable text ps b \<Rightarrow>
               if ''reply_fun'' \<notin> set (map name parameters) then
                 returns (reply_fun (error_obj (''Method '' @ text @
                   '' must declare a parameter 'reply_fun' that must be invoked to reply to an invokation.'')))
               else
                 (case first_missing parameters args of
                    Inl e \<Rightarrow> raises e
                  | Inr (Some arg_name) \<Rightarrow>
                      returns (reply_fun (error_obj (''Message received does not specify argument '' @
                        arg_name @ '' in attribute '' @ ARGS_ATTRIBUTE @ ''.'')))
                  | Inr None \<Rightarrow> call server_method method_op args reply_fun)
           | _ \<Rightarrow> raises TypeError))"

definition check_args ::
  "string \<Rightarrow> pyobj \<Rightarrow> json \<Rightarrow> (json \<Rightarrow> 'b channel_call list) \<Rightarrow> 'b effects" where
  "check_args server_method method_op body_json reply_fun =
     (case contains ARGS_ATTRIBUTE body_json of
        Inl e \<Rightarrow> raises e
      | Inr False \<Rightarrow>
          returns (reply_fun (error_obj (''Message received does not have arguments in attribute '' @
            ARGS_ATTRIBUTE @ ''.'')))
      | Inr True \<Rightarrow>
          (case subscript body_json ARGS_ATTRIBUTE of
             Inl e \<Rightarrow> raises e
           | Inr args \<Rightarrow> check_signature server_method method_op args reply_fun))"

definition check_method ::
  "(string \<rightharpoonup> pyobj) \<Rightarrow> json \<Rightarrow> (json \<Rightarrow> 'b channel_call list) \<Rightarrow> 'b effects" where
  "check_method self body_json reply_fun =
     (case contains METHOD_ATTRIBUTE body_json of
        Inl e \<Rightarrow> raises e
      | Inr False \<Rightarrow>
          returns (reply_fun (error_obj (''Attribute '' @ METHOD_ATTRIBUTE @ '' must be specified.'')))
      | Inr True \<Rightarrow>
          (case subscript body_json METHOD_ATTRIBUTE of
             Inl e \<Rightarrow> raises e
           | Inr (JStr server_method) \<Rightarrow>
               (case getattr self server_method PyNone of
                  PyNone \<Rightarrow>
                    returns (reply_fun (error_obj (''Method specified does not exist: '' @
                      server_method @ ''.'')))
                | method_op \<Rightarrow> check_args server_method method_op body_json reply_fun)
           | Inr _ \<Rightarrow> raises TypeError))"

definition serve ::
  "('b \<Rightarrow> error + json) \<Rightarrow> (json \<Rightarrow> 'b) \<Rightarrow> (string \<rightharpoonup> pyobj) \<Rightarrow>
   deliver \<Rightarrow> basic_properties \<Rightarrow> 'b \<Rightarrow> 'b effects" where
  "serve decode_json encode_json self method props body =
     (case decode_json body of
        Inl e \<Rightarrow> raises e
      | Inr body_json \<Rightarrow>
          (case reply_to props of
             None \<Rightarrow> returns [basic_ack (delivery_tag method)]
           | Some routing_key_reply \<Rightarrow>
               check_method self body_json
                 (reply encode_json routing_key_reply (correlation_id props) method)))"

subsection \<open>The class \<open>RPCServer\<close>\<close>

text \<open>\<open>echo\<close>, lines 146 to 155: \<open>reply_fun(msg)\<close>.\<close>

definition echo :: "(string \<rightharpoonup> json) \<Rightarrow> hstep list" where
  "echo kw = (case kw ''msg'' of None \<Rightarrow> [Raise TypeError] | Some msg \<Rightarrow> [Reply_fun msg])"

definition positional :: "string \<Rightarrow> param" where
  "positional nm = \<lparr>name = nm, kind = POSITIONAL_OR_KEYWORD, has_default = False\<rparr>"

definition bound_method :: "string \<Rightarrow> string \<Rightarrow> string" where
  "bound_method nm obj = ''<bound method RPCServer.'' @ nm @ '' of '' @ obj @ ''>''"

text \<open>
  The attributes the class statement gives an instance: its five methods (the other
  four never reply, and their bodies are not entered by \<open>serve\<close>, having no parameter
  \<open>reply_fun\<close>), the logger \<open>_l\<close>, the docstring, and \<open>__weakref__\<close>, which a class
  without \<open>__slots__\<close> has and which is \<open>None\<close> while nothing refers to the instance
  weakly. \<open>inherited\<close> are the attributes that come from \<open>Rabbitmq\<close> and \<open>object\<close>, and
  \<open>obj\<close> is the text of the instance in the text of its bound methods.
\<close>

definition RPCServer :: "(string \<rightharpoonup> pyobj) \<Rightarrow> string \<Rightarrow> (string \<rightharpoonup> pyobj)" where
  "RPCServer inherited obj = inherited ++
     [''__init__'' \<mapsto> PyCallable (bound_method ''__init__'' obj)
        (map positional [''ip'', ''port'', ''username'', ''password'', ''vhost'', ''exchange'', ''type'']
          @ [\<lparr>name = ''ssl'', kind = POSITIONAL_OR_KEYWORD, has_default = True\<rparr>])
        (\<lambda>kw. []),
      ''setup'' \<mapsto> PyCallable (bound_method ''setup'' obj)
        (map positional [''routing_key'', ''queue_name'']) (\<lambda>kw. []),
      ''start_serving'' \<mapsto> PyCallable (bound_method ''start_serving'' obj) [] (\<lambda>kw. []),
      ''serve'' \<mapsto> PyCallable (bound_method ''serve'' obj)
        (map positional [''ch'', ''method'', ''props'', ''body'']) (\<lambda>kw. []),
      ''echo'' \<mapsto> PyCallable (bound_method ''echo'' obj)
        (map positional [''msg'', ''reply_fun'']) echo,
      ''_l'' \<mapsto> PyObject,
      ''__doc__'' \<mapsto> PyObject,
      ''__weakref__'' \<mapsto> PyNone]"

section \<open>Observations on a run\<close>

text \<open>The delivery tags acknowledged on the channel, in order.\<close>

fun acks :: "'b channel_call list \<Rightarrow> nat list" where
  "acks [] = []"
| "acks (basic_ack t # cs) = t # acks cs"
| "acks (basic_publish ex rk cid b # cs) = acks cs"

text \<open>How often a handler body calls \<open>reply_fun\<close> before it returns or raises.\<close>

fun replies_made :: "hstep list \<Rightarrow> nat" where
  "replies_made [] = 0"
| "replies_made (Reply_fun msg # rest) = Suc (replies_made rest)"
| "replies_made (Raise e # rest) = 0"

text \<open>
  The channel saw nothing but publications to \<open>R\<close> on the default exchange with correlation
  id \<open>C\<close>, each followed at once by the acknowledgement of \<open>t\<close>.
\<close>

fun publish_then_ack :: "string \<Rightarrow> string option \<Rightarrow> nat \<Rightarrow> 'b channel_call list \<Rightarrow> bool" where
  "publish_then_ack R C t [] = True"
| "publish_then_ack R C t (basic_publish ex rk cid b # basic_ack t' # cs) =
     (ex = '''' \<and> rk = R \<and> cid = C \<and> t' = t \<and> publish_then_ack R C t cs)"
| "publish_then_ack R C t cs = False"

text \<open>
  The run that publishes the one reply \<open>{"error": text}\<close> to \<open>R\<close> with the correlation id of
  the request, then acknowledges the delivery, enters no handler and returns.
\<close>

definition replied_error ::
  "(json \<Rightarrow> 'b) \<Rightarrow> deliver \<Rightarrow> basic_properties \<Rightarrow> string \<Rightarrow> string \<Rightarrow> 'b effects" where
  "replied_error encode_json method props R text =
     \<lparr>channel = [basic_publish '''' R (correlation_id props) (encode_json (JObj [''error'' \<mapsto> JStr text])),
                 basic_ack (delivery_tag method)],
      invoked = [], raised = None\<rparr>"

section \<open>The stages of \<open>serve\<close>\<close>

lemma positional_sel:
  "name (positional nm) = nm" "kind (positional nm) = POSITIONAL_OR_KEYWORD"
  "has_default (positional nm) = False"
  by (simp_all add: positional_def)

lemma returns_reply_error:
  "returns (reply encode_json R (correlation_id props) method (error_obj text)) =
   replied_error encode_json method props R text"
  by (simp add: returns_def reply_def error_obj_def replied_error_def)

lemma serve_decoded:
  "decode_json body = Inr j \<Longrightarrow> reply_to props = Some R \<Longrightarrow>
   serve decode_json encode_json self method props body =
     check_method self j (reply encode_json R (correlation_id props) method)"
  by (simp add: serve_def)

lemma serve_no_reply_to:
  "decode_json body = Inr j \<Longrightarrow> reply_to props = None \<Longrightarrow>
   serve decode_json encode_json self method props body = returns [basic_ack (delivery_tag method)]"
  by (simp add: serve_def)

lemma check_method_missing:
  "req ''method'' = None \<Longrightarrow>
   check_method self (JObj req) rf = returns (rf (error_obj ''Attribute method must be specified.''))"
  by (simp add: check_method_def METHOD_ATTRIBUTE_def)

lemma check_method_unknown:
  "req ''method'' = Some (JStr nm) \<Longrightarrow> getattr self nm PyNone = PyNone \<Longrightarrow>
   check_method self (JObj req) rf =
     returns (rf (error_obj (''Method specified does not exist: '' @ nm @ ''.'')))"
  by (simp add: check_method_def METHOD_ATTRIBUTE_def)

lemma check_method_resolved:
  "req ''method'' = Some (JStr nm) \<Longrightarrow> self nm = Some op \<Longrightarrow> op \<noteq> PyNone \<Longrightarrow>
   check_method self (JObj req) rf = check_args nm op (JObj req) rf"
  by (simp add: check_method_def METHOD_ATTRIBUTE_def getattr_def split: pyobj.splits)

lemma check_args_missing:
  "req ''args'' = None \<Longrightarrow>
   check_args nm op (JObj req) rf =
     returns (rf (error_obj ''Message received does not have arguments in attribute args.''))"
  by (simp add: check_args_def ARGS_ATTRIBUTE_def)

lemma check_args_present:
  "req ''args'' = Some a \<Longrightarrow> check_args nm op (JObj req) rf = check_signature nm op a rf"
  by (simp add: check_args_def ARGS_ATTRIBUTE_def)

lemma check_signature_no_reply_fun:
  "''reply_fun'' \<notin> set (map name ps) \<Longrightarrow>
   check_signature nm (PyCallable t ps b) a rf =
     returns (rf (error_obj (''Method '' @ t @
       '' must declare a parameter 'reply_fun' that must be invoked to reply to an invokation.'')))"
  by (simp add: check_signature_def)

lemma check_signature_missing:
  "''reply_fun'' \<in> set (map name ps) \<Longrightarrow> first_missing ps a = Inr (Some x) \<Longrightarrow>
   check_signature nm (PyCallable t ps b) a rf =
     returns (rf (error_obj (''Message received does not specify argument '' @ x @
       '' in attribute args.'')))"
  by (simp add: check_signature_def ARGS_ATTRIBUTE_def)

lemma check_signature_call:
  "''reply_fun'' \<in> set (map name ps) \<Longrightarrow> first_missing ps a = Inr None \<Longrightarrow>
   check_signature nm (PyCallable t ps b) a rf = call nm (PyCallable t ps b) a rf"
  by (simp add: check_signature_def)

lemma first_missing_skip:
  "\<forall>q\<in>set ps1. name q = ''reply_fun'' \<or> kw (name q) \<noteq> None \<Longrightarrow>
   first_missing (ps1 @ ps2) (JObj kw) = first_missing ps2 (JObj kw)"
  by (induction ps1) (auto split: bool.splits)

lemma first_missing_first:
  "\<forall>q\<in>set ps1. name q = ''reply_fun'' \<or> kw (name q) \<noteq> None \<Longrightarrow>
   name p \<noteq> ''reply_fun'' \<Longrightarrow> kw (name p) = None \<Longrightarrow>
   first_missing (ps1 @ p # ps2) (JObj kw) = Inr (Some (name p))"
  by (simp add: first_missing_skip)

lemma first_missing_none:
  "first_missing ps (JObj kw) = Inr None \<longleftrightarrow>
   (\<forall>p\<in>set ps. name p = ''reply_fun'' \<or> kw (name p) \<noteq> None)"
  by (induction ps) (auto split: bool.splits)

lemma acks_reply: "acks (reply encode_json R C method msg @ cs) = delivery_tag method # acks cs"
  by (simp add: reply_def)

lemma run_handler_acks:
  "acks (fst (run_handler (reply encode_json R C method) steps)) =
   replicate (replies_made steps) (delivery_tag method)"
  by (induction steps rule: replies_made.induct) (auto simp: acks_reply split: prod.splits)

lemma run_handler_publish_then_ack:
  "publish_then_ack R C (delivery_tag method) (fst (run_handler (reply encode_json R C method) steps))"
  by (induction steps rule: replies_made.induct) (auto simp: reply_def split: prod.splits)

text \<open>
  Every run ends in one of four ways: an exception before anything is sent, the bare
  acknowledgement of a message without reply address, one error reply, or the handler.
\<close>

lemma call_cases:
  "(\<exists>e. call nm op a rf = raises e) \<or>
   (\<exists>t ps b kw. op = PyCallable t ps b \<and> a = JObj kw \<and> binds ps kw \<and>
      call nm op a rf = \<lparr>channel = fst (run_handler rf (b kw)), invoked = [(nm, kw)],
                          raised = snd (run_handler rf (b kw))\<rparr>)"
  by (auto simp: call_def split: json.splits pyobj.splits prod.splits)

lemma check_signature_cases:
  "(\<exists>e. check_signature nm op a rf = raises e) \<or>
   (\<exists>text. check_signature nm op a rf = returns (rf (error_obj text))) \<or>
   (\<exists>t ps b kw. op = PyCallable t ps b \<and> a = JObj kw \<and> binds ps kw \<and>
      ''reply_fun'' \<in> set (map name ps) \<and> first_missing ps a = Inr None \<and>
      check_signature nm op a rf = \<lparr>channel = fst (run_handler rf (b kw)), invoked = [(nm, kw)],
                          raised = snd (run_handler rf (b kw))\<rparr>)"
proof (cases op)
  case (PyCallable t ps b)
  show ?thesis
  proof (cases "''reply_fun'' \<in> set (map name ps)")
    case False
    then show ?thesis unfolding PyCallable by (simp add: check_signature_no_reply_fun) blast
  next
    case True
    show ?thesis
    proof (cases "first_missing ps a")
      case (Inl e)
      then show ?thesis using True unfolding PyCallable by (simp add: check_signature_def) blast
    next
      case (Inr r)
      show ?thesis
      proof (cases r)
        case None
        then show ?thesis using True Inr call_cases [of nm op a rf] unfolding PyCallable
          by (simp add: check_signature_call) blast
      next
        case (Some x)
        then show ?thesis using True Inr unfolding PyCallable
          by (simp add: check_signature_missing) blast
      qed
    qed
  qed
qed (auto simp: check_signature_def)

lemma check_args_cases:
  "(\<exists>e. check_args nm op j rf = raises e) \<or>
   (\<exists>text. check_args nm op j rf = returns (rf (error_obj text))) \<or>
   (\<exists>req t ps b kw. j = JObj req \<and> req ''args'' = Some (JObj kw) \<and>
      op = PyCallable t ps b \<and> binds ps kw \<and>
      ''reply_fun'' \<in> set (map name ps) \<and> first_missing ps (JObj kw) = Inr None \<and>
      check_args nm op j rf = \<lparr>channel = fst (run_handler rf (b kw)), invoked = [(nm, kw)],
                          raised = snd (run_handler rf (b kw))\<rparr>)"
proof (cases j)
  case (JObj req)
  show ?thesis
  proof (cases "req ''args''")
    case None
    then show ?thesis unfolding JObj by (simp add: check_args_missing) blast
  next
    case (Some a)
    then show ?thesis using check_signature_cases [of nm op a rf] unfolding JObj
      by (simp add: check_args_present) blast
  qed
qed (auto simp: check_args_def split: bool.splits)

lemma check_method_cases:
  "(\<exists>e. check_method self j rf = raises e) \<or>
   (\<exists>text. check_method self j rf = returns (rf (error_obj text))) \<or>
   (\<exists>req nm t ps b kw. j = JObj req \<and> req ''method'' = Some (JStr nm) \<and>
      self nm = Some (PyCallable t ps b) \<and> req ''args'' = Some (JObj kw) \<and> binds ps kw \<and>
      ''reply_fun'' \<in> set (map name ps) \<and> first_missing ps (JObj kw) = Inr None \<and>
      check_method self j rf = \<lparr>channel = fst (run_handler rf (b kw)), invoked = [(nm, kw)],
                          raised = snd (run_handler rf (b kw))\<rparr>)"
proof (cases j)
  case (JObj req)
  show ?thesis
  proof (cases "req ''method''")
    case None
    then show ?thesis unfolding JObj by (simp add: check_method_missing) blast
  next
    case (Some m)
    show ?thesis
    proof (cases m)
      case (JStr nm)
      show ?thesis
      proof (cases "getattr self nm PyNone = PyNone")
        case True
        then show ?thesis using Some JStr unfolding JObj by (simp add: check_method_unknown) blast
      next
        case False
        then obtain op where op: "self nm = Some op" "op \<noteq> PyNone"
          by (auto simp: getattr_def split: option.splits)
        then show ?thesis using Some JStr check_args_cases [of nm op "JObj req" rf] unfolding JObj
          by (simp add: check_method_resolved) blast
      qed
    qed (use Some in \<open>auto simp: check_method_def METHOD_ATTRIBUTE_def JObj\<close>)
  qed
qed (auto simp: check_method_def split: bool.splits)

lemma serve_cases:
  "(\<exists>e. serve decode_json encode_json self method props body = raises e) \<or>
   (reply_to props = None \<and>
      serve decode_json encode_json self method props body = returns [basic_ack (delivery_tag method)]) \<or>
   (\<exists>R text. reply_to props = Some R \<and>
      serve decode_json encode_json self method props body = replied_error encode_json method props R text) \<or>
   (\<exists>R req nm t ps b kw. reply_to props = Some R \<and> decode_json body = Inr (JObj req) \<and>
      req ''method'' = Some (JStr nm) \<and>
      self nm = Some (PyCallable t ps b) \<and> req ''args'' = Some (JObj kw) \<and> binds ps kw \<and>
      ''reply_fun'' \<in> set (map name ps) \<and> first_missing ps (JObj kw) = Inr None \<and>
      serve decode_json encode_json self method props body =
        \<lparr>channel = fst (run_handler (reply encode_json R (correlation_id props) method) (b kw)),
         invoked = [(nm, kw)],
         raised = snd (run_handler (reply encode_json R (correlation_id props) method) (b kw))\<rparr>)"
proof (cases "decode_json body")
  case (Inl e)
  then show ?thesis by (auto simp: serve_def)
next
  case (Inr j)
  show ?thesis
  proof (cases "reply_to props")
    case None
    then show ?thesis using Inr by (simp add: serve_no_reply_to)
  next
    case (Some R)
    have "serve decode_json encode_json self method props body =
        check_method self j (reply encode_json R (correlation_id props) method)"
      using Inr Some by (rule serve_decoded)
    then show ?thesis
      using check_method_cases [of self j "reply encode_json R (correlation_id props) method"]
        Some Inr
      by (auto simp: returns_reply_error)
  qed
qed

lemma replied_error_text:
  assumes "replied_error encode_json m p R t1 = replied_error encode_json m p R t2"
    and "inj encode_json"
  shows "t1 = t2"
proof -
  from assms(1) have "encode_json (JObj [''error'' \<mapsto> JStr t1]) = encode_json (JObj [''error'' \<mapsto> JStr t2])"
    by (simp add: replied_error_def)
  with assms(2) have "[''error'' \<mapsto> JStr t1] = [''error'' \<mapsto> JStr t2]"
    by (auto dest: injD)
  then have "JStr t1 = JStr t2" by (rule map_upd_eqD1)
  then show ?thesis by simp
qed

lemma replied_error_fields:
  "channel (replied_error encode_json m p R t) =
     [basic_publish '''' R (correlation_id p) (encode_json (JObj [''error'' \<mapsto> JStr t])),
      basic_ack (delivery_tag m)]"
  "invoked (replied_error encode_json m p R t) = []"
  "raised (replied_error encode_json m p R t) = None"
  by (simp_all add: replied_error_def)

lemma serve_missing_method:
  "decode_json body = Inr (JObj req) \<Longrightarrow> reply_to props = Some R \<Longrightarrow> req ''method'' = None \<Longrightarrow>
   serve decode_json encode_json self method props body =
     replied_error encode_json method props R ''Attribute method must be specified.''"
  by (simp add: serve_decoded check_method_missing returns_reply_error)

lemma serve_unknown_method:
  "decode_json body = Inr (JObj req) \<Longrightarrow> reply_to props = Some R \<Longrightarrow>
   req ''method'' = Some (JStr nm) \<Longrightarrow> getattr self nm PyNone = PyNone \<Longrightarrow>
   serve decode_json encode_json self method props body =
     replied_error encode_json method props R (''Method specified does not exist: '' @ nm @ ''.'')"
  by (simp add: serve_decoded check_method_unknown returns_reply_error)

lemma serve_missing_args:
  "decode_json body = Inr (JObj req) \<Longrightarrow> reply_to props = Some R \<Longrightarrow>
   req ''method'' = Some (JStr nm) \<Longrightarrow> self nm = Some op \<Longrightarrow> op \<noteq> PyNone \<Longrightarrow>
   req ''args'' = None \<Longrightarrow>
   serve decode_json encode_json self method props body =
     replied_error encode_json method props R
       ''Message received does not have arguments in attribute args.''"
  by (simp add: serve_decoded check_method_resolved check_args_missing returns_reply_error)

lemma serve_no_reply_fun:
  "decode_json body = Inr (JObj req) \<Longrightarrow> reply_to props = Some R \<Longrightarrow>
   req ''method'' = Some (JStr nm) \<Longrightarrow> self nm = Some (PyCallable t ps b) \<Longrightarrow>
   req ''args'' = Some a \<Longrightarrow> ''reply_fun'' \<notin> set (map name ps) \<Longrightarrow>
   serve decode_json encode_json self method props body =
     replied_error encode_json method props R (''Method '' @ t @
       '' must declare a parameter 'reply_fun' that must be invoked to reply to an invokation.'')"
  by (simp add: serve_decoded check_method_resolved check_args_present
      check_signature_no_reply_fun returns_reply_error)

lemma serve_missing_argument:
  "decode_json body = Inr (JObj req) \<Longrightarrow> reply_to props = Some R \<Longrightarrow>
   req ''method'' = Some (JStr nm) \<Longrightarrow> self nm = Some (PyCallable t (ps1 @ p # ps2) b) \<Longrightarrow>
   req ''args'' = Some (JObj kw) \<Longrightarrow> ''reply_fun'' \<in> set (map name (ps1 @ p # ps2)) \<Longrightarrow>
   \<forall>q\<in>set ps1. name q = ''reply_fun'' \<or> kw (name q) \<noteq> None \<Longrightarrow>
   name p \<noteq> ''reply_fun'' \<Longrightarrow> kw (name p) = None \<Longrightarrow>
   serve decode_json encode_json self method props body =
     replied_error encode_json method props R
       (''Message received does not specify argument '' @ name p @ '' in attribute args.'')"
  using first_missing_first [of ps1 kw p ps2]
  by (simp add: serve_decoded check_method_resolved check_args_present
      check_signature_missing returns_reply_error del: first_missing.simps)

lemma serve_run:
  obtains (raise) e where "serve decode_json encode_json self method props body = raises e"
  | (noreply) "reply_to props = None"
      "serve decode_json encode_json self method props body = returns [basic_ack (delivery_tag method)]"
  | (error) R etext where "reply_to props = Some R"
      "serve decode_json encode_json self method props body =
         replied_error encode_json method props R etext"
  | (handler) R req nm t ps b kw where "reply_to props = Some R"
      "decode_json body = Inr (JObj req)" "req ''method'' = Some (JStr nm)"
      "self nm = Some (PyCallable t ps b)" "req ''args'' = Some (JObj kw)" "binds ps kw"
      "''reply_fun'' \<in> set (map name ps)" "first_missing ps (JObj kw) = Inr None"
      "serve decode_json encode_json self method props body =
        \<lparr>channel = fst (run_handler (reply encode_json R (correlation_id props) method) (b kw)),
         invoked = [(nm, kw)],
         raised = snd (run_handler (reply encode_json R (correlation_id props) method) (b kw))\<rparr>"
  using serve_cases [of decode_json encode_json self "method" props body]
  by (elim disjE exE conjE) blast+

section \<open>The instance and the call\<close>

lemma RPCServer_echo:
  "RPCServer inherited obj ''echo'' =
     Some (PyCallable (bound_method ''echo'' obj) [positional ''msg'', positional ''reply_fun''] echo)"
  by (simp add: RPCServer_def)

lemma RPCServer_serve:
  "RPCServer inherited obj ''serve'' =
     Some (PyCallable (bound_method ''serve'' obj)
       [positional ''ch'', positional ''method'', positional ''props'', positional ''body''] (\<lambda>kw. []))"
  by (simp add: RPCServer_def)

lemma RPCServer_setup:
  "RPCServer inherited obj ''setup'' =
     Some (PyCallable (bound_method ''setup'' obj)
       [positional ''routing_key'', positional ''queue_name''] (\<lambda>kw. []))"
  by (simp add: RPCServer_def)

lemma RPCServer_weakref: "RPCServer inherited obj ''__weakref__'' = Some PyNone"
  by (simp add: RPCServer_def)

lemma RPCServer_foo: "RPCServer Map.empty obj ''foo'' = None"
  by (simp add: RPCServer_def)

lemma binds_echo:
  "binds [positional ''msg'', positional ''reply_fun''] kw \<longleftrightarrow>
   kw ''reply_fun'' = None \<and> dom kw \<subseteq> {''msg''} \<and> kw ''msg'' \<noteq> None"
  by (auto simp: binds_def has_var_keyword_def keyword_names_def positional_sel)

lemma binds_no_extra:
  assumes "binds ps kw" and "\<not> has_var_keyword ps" and "kw k \<noteq> None"
  shows "k \<in> set (map name ps)"
proof -
  from assms have "insert ''reply_fun'' (dom kw) \<subseteq> set (keyword_names ps)"
    by (simp add: binds_def)
  with assms(3) have "k \<in> set (keyword_names ps)" by auto
  then show ?thesis by (auto simp: keyword_names_def)
qed

lemma echo_request_eval:
  "decode_json body =
      Inr (JObj [''method'' \<mapsto> JStr ''echo'', ''args'' \<mapsto> JObj [''msg'' \<mapsto> JStr ''hi'']]) \<Longrightarrow>
   reply_to props = Some R \<Longrightarrow>
   serve decode_json encode_json (RPCServer inherited obj) method props body =
     \<lparr>channel = [basic_publish '''' R (correlation_id props) (encode_json (JStr ''hi'')),
                 basic_ack (delivery_tag method)],
      invoked = [(''echo'', [''msg'' \<mapsto> JStr ''hi''])], raised = None\<rparr>"
  by (simp add: serve_decoded check_method_resolved check_args_present
      RPCServer_echo check_signature_call positional_sel call_def binds_echo echo_def reply_def)

lemma echo_run:
  "serve Inr (\<lambda>j. j) (RPCServer Map.empty ''srv'') \<lparr>delivery_tag = 1\<rparr>
      \<lparr>reply_to = Some ''R'', correlation_id = Some ''C''\<rparr>
      (JObj [''method'' \<mapsto> JStr ''echo'', ''args'' \<mapsto> JObj [''msg'' \<mapsto> JStr ''hi'']]) =
     \<lparr>channel = [basic_publish '''' ''R'' (Some ''C'') (JStr ''hi''), basic_ack 1],
      invoked = [(''echo'', [''msg'' \<mapsto> JStr ''hi''])], raised = None\<rparr>"
  using echo_request_eval [where decode_json = Inr and encode_json = "\<lambda>j. j"
      and inherited = Map.empty and obj = "''srv''"
      and props = "\<lparr>reply_to = Some ''R'', correlation_id = Some ''C''\<rparr>" and R = "''R''"
      and body = "JObj [''method'' \<mapsto> JStr ''echo'', ''args'' \<mapsto> JObj [''msg'' \<mapsto> JStr ''hi'']]",
      of "\<lparr>delivery_tag = 1\<rparr>"]
  by simp

lemma missing_method_run:
  "serve Inr (\<lambda>j. j) (RPCServer Map.empty ''srv'') \<lparr>delivery_tag = 1\<rparr>
      \<lparr>reply_to = Some ''R'', correlation_id = Some ''C''\<rparr> (JObj [''args'' \<mapsto> JObj Map.empty]) =
     replied_error (\<lambda>j. j) \<lparr>delivery_tag = 1\<rparr>
       \<lparr>reply_to = Some ''R'', correlation_id = Some ''C''\<rparr> ''R'' ''Attribute method must be specified.''"
  by (simp add: serve_missing_method [where req = "[''args'' \<mapsto> JObj Map.empty]"])

section \<open>The claims\<close>

text \<open>
  C1. The claim is that keys of \<open>args\<close> which the handler does not declare are ignored.
  The code passes every key of \<open>args\<close> as a keyword (line 144), so for a handler without
  a \<open>**\<close> parameter whose declared parameters are all present, one more key makes the
  call raise \<open>TypeError\<close>: nothing is published, nothing is acknowledged, the handler
  is not entered. The instance below is the request to \<open>echo\<close> with
  \<open>args = {"msg": "hi", "extra": "ignored"}\<close>.
\<close>

theorem extra_key_raises_TypeError:
  assumes "decode_json body = Inr (JObj req)" and "reply_to props = Some R"
    and "req ''method'' = Some (JStr nm)" and "self nm = Some (PyCallable t ps b)"
    and "req ''args'' = Some (JObj kw)"
    and "''reply_fun'' \<in> set (map name ps)"
    and "\<forall>p\<in>set ps. name p = ''reply_fun'' \<or> kw (name p) \<noteq> None"
    and "\<not> has_var_keyword ps"
    and "kw k \<noteq> None" and "k \<notin> set (map name ps)"
  shows "serve decode_json encode_json self method props body =
     \<lparr>channel = [], invoked = [], raised = Some TypeError\<rparr>"
proof -
  have "\<not> binds ps kw"
    using binds_no_extra [of ps kw k] assms(8-10) by blast
  moreover have "first_missing ps (JObj kw) = Inr None"
    using assms(7) by (simp add: first_missing_none)
  ultimately show ?thesis
    using assms(1-6)
    by (simp add: serve_decoded check_method_resolved check_args_present check_signature_call
        call_def raises_def)
qed

theorem extra_key_raises_TypeError_witness:
  "serve Inr (\<lambda>j. j) (RPCServer Map.empty ''srv'') \<lparr>delivery_tag = 1\<rparr>
      \<lparr>reply_to = Some ''R'', correlation_id = Some ''C''\<rparr>
      (JObj [''method'' \<mapsto> JStr ''echo'',
             ''args'' \<mapsto> JObj [''msg'' \<mapsto> JStr ''hi'', ''extra'' \<mapsto> JStr ''ignored'']]) =
     \<lparr>channel = [], invoked = [], raised = Some TypeError\<rparr>"
  using extra_key_raises_TypeError [where decode_json = Inr and encode_json = "\<lambda>j. j"
      and self = "RPCServer Map.empty ''srv''"
      and props = "\<lparr>reply_to = Some ''R'', correlation_id = Some ''C''\<rparr>" and R = "''R''"
      and body = "JObj [''method'' \<mapsto> JStr ''echo'',
             ''args'' \<mapsto> JObj [''msg'' \<mapsto> JStr ''hi'', ''extra'' \<mapsto> JStr ''ignored'']]"
      and req = "[''method'' \<mapsto> JStr ''echo'',
             ''args'' \<mapsto> JObj [''msg'' \<mapsto> JStr ''hi'', ''extra'' \<mapsto> JStr ''ignored'']]"
      and nm = "''echo''" and t = "bound_method ''echo'' ''srv''"
      and ps = "[positional ''msg'', positional ''reply_fun'']" and b = echo
      and kw = "[''msg'' \<mapsto> JStr ''hi'', ''extra'' \<mapsto> JStr ''ignored'']" and k = "''extra''",
      of "\<lparr>delivery_tag = 1\<rparr>"]
  by (simp add: RPCServer_echo positional_sel has_var_keyword_def)

text \<open>
  C2. The claim has every delivery acknowledged exactly once whatever the outcome, an
  undecodable payload included. \<open>decode_json(body)\<close> is the first statement of \<open>serve\<close>
  (line 63), before both acknowledgements and outside any \<open>try\<close>: when it raises on the
  payload, the exception leaves \<open>serve\<close> and the delivery is not acknowledged.
\<close>

theorem undecodable_payload_never_acknowledged_counterexample:
  "serve (\<lambda>b. Inl (Exc ''JSONDecodeError'')) (\<lambda>j. '''') (RPCServer Map.empty ''srv'')
      \<lparr>delivery_tag = 1\<rparr> \<lparr>reply_to = Some ''R'', correlation_id = Some ''C''\<rparr> ''{'' =
     \<lparr>channel = [], invoked = [], raised = Some (Exc ''JSONDecodeError'')\<rparr> \<and>
   acks (channel (serve (\<lambda>b. Inl (Exc ''JSONDecodeError'')) (\<lambda>j. '''')
      (RPCServer Map.empty ''srv'')
      \<lparr>delivery_tag = 1\<rparr> \<lparr>reply_to = Some ''R'', correlation_id = Some ''C''\<rparr> ''{'')) = []"
  by (simp add: serve_def raises_def)

text \<open>
  C2, as amended. A run that returns without entering a handler (no reply address, or
  one of the error replies) acknowledges the delivery exactly once. When a handler is
  entered, the delivery is acknowledged once for each call the handler makes of
  \<open>reply_fun\<close> (once by \<open>echo\<close>), and \<open>serve\<close> adds none. A run that ends in an exception
  before a handler is entered acknowledges nothing, and such is the run on which
  \<open>decode_json\<close> raises: its exception leaves \<open>serve\<close> with nothing sent.
\<close>

theorem acknowledged_once_per_reply:
  "(decode_json body = Inl e \<longrightarrow>
      serve decode_json encode_json self method props body =
        \<lparr>channel = [], invoked = [], raised = Some e\<rparr>) \<and>
   (raised (serve decode_json encode_json self method props body) = Some e' \<and>
    invoked (serve decode_json encode_json self method props body) = [] \<longrightarrow>
      acks (channel (serve decode_json encode_json self method props body)) = []) \<and>
   (raised (serve decode_json encode_json self method props body) = None \<and>
    invoked (serve decode_json encode_json self method props body) = [] \<longrightarrow>
      acks (channel (serve decode_json encode_json self method props body)) = [delivery_tag method]) \<and>
   (invoked (serve decode_json encode_json self method props body) = [(nm, kw)] \<and>
    self nm = Some (PyCallable t ps b) \<longrightarrow>
      acks (channel (serve decode_json encode_json self method props body)) =
        replicate (replies_made (b kw)) (delivery_tag method))"
proof (intro conjI impI)
  assume "decode_json body = Inl e"
  then show "serve decode_json encode_json self method props body =
        \<lparr>channel = [], invoked = [], raised = Some e\<rparr>"
    by (simp add: serve_def raises_def)
next
  assume a: "raised (serve decode_json encode_json self method props body) = Some e' \<and>
    invoked (serve decode_json encode_json self method props body) = []"
  show "acks (channel (serve decode_json encode_json self method props body)) = []"
  proof (cases rule: serve_run [of decode_json encode_json self "method" props body])
    case (raise e)
    then show ?thesis by (simp add: raises_def)
  next
    case noreply
    with a show ?thesis by (simp add: returns_def)
  next
    case (error R' etext)
    with a show ?thesis by (simp add: replied_error_def)
  next
    case (handler R' req nm' t' ps' b' kw')
    with a show ?thesis by simp
  qed
next
  assume a: "raised (serve decode_json encode_json self method props body) = None \<and>
    invoked (serve decode_json encode_json self method props body) = []"
  show "acks (channel (serve decode_json encode_json self method props body)) = [delivery_tag method]"
  proof (cases rule: serve_run [of decode_json encode_json self "method" props body])
    case (raise e)
    with a show ?thesis by (simp add: raises_def)
  next
    case noreply
    then show ?thesis by (simp add: returns_def)
  next
    case (error R' etext)
    then show ?thesis by (simp add: replied_error_def)
  next
    case (handler R' req nm' t' ps' b' kw')
    with a show ?thesis by simp
  qed
next
  assume a: "invoked (serve decode_json encode_json self method props body) = [(nm, kw)] \<and>
    self nm = Some (PyCallable t ps b)"
  show "acks (channel (serve decode_json encode_json self method props body)) =
        replicate (replies_made (b kw)) (delivery_tag method)"
  proof (cases rule: serve_run [of decode_json encode_json self "method" props body])
    case (raise e)
    with a show ?thesis by (simp add: raises_def)
  next
    case noreply
    with a show ?thesis by (simp add: returns_def)
  next
    case (error R' etext)
    with a show ?thesis by (simp add: replied_error_def)
  next
    case (handler R' req nm' t' ps' b' kw')
    with a have "nm' = nm" "kw' = kw" by simp_all
    with a handler(4) have "b' = b" by simp
    with handler(9) \<open>kw' = kw\<close> show ?thesis by (simp add: run_handler_acks)
  qed
qed

theorem acknowledged_once_per_reply_witness:
  "serve (\<lambda>b. Inl (Exc ''JSONDecodeError'')) (\<lambda>j. '''') (RPCServer Map.empty ''srv'')
      \<lparr>delivery_tag = 1\<rparr> \<lparr>reply_to = Some ''R'', correlation_id = Some ''C''\<rparr> ''{'' =
     \<lparr>channel = [], invoked = [], raised = Some (Exc ''JSONDecodeError'')\<rparr> \<and>
   acks (channel (serve (\<lambda>b. Inl (Exc ''JSONDecodeError'')) (\<lambda>j. '''')
      (RPCServer Map.empty ''srv'')
      \<lparr>delivery_tag = 1\<rparr> \<lparr>reply_to = None, correlation_id = None\<rparr> ''{'')) = [] \<and>
   acks (channel (serve Inr (\<lambda>j. j) (RPCServer Map.empty ''srv'') \<lparr>delivery_tag = 1\<rparr>
      \<lparr>reply_to = Some ''R'', correlation_id = Some ''C''\<rparr> (JObj [''args'' \<mapsto> JObj Map.empty]))) = [1] \<and>
   acks (channel (serve Inr (\<lambda>j. j) (RPCServer Map.empty ''srv'') \<lparr>delivery_tag = 1\<rparr>
      \<lparr>reply_to = Some ''R'', correlation_id = Some ''C''\<rparr>
      (JObj [''method'' \<mapsto> JStr ''echo'', ''args'' \<mapsto> JObj [''msg'' \<mapsto> JStr ''hi'']]))) = [1]"
proof -
  note u = acknowledged_once_per_reply [where decode_json = "\<lambda>b. Inl (Exc ''JSONDecodeError'')"
      and encode_json = "\<lambda>j. ''''" and self = "RPCServer Map.empty ''srv''" and body = "''{''"]
  note v = acknowledged_once_per_reply [where decode_json = Inr and encode_json = "\<lambda>j. j"
      and self = "RPCServer Map.empty ''srv''"
      and props = "\<lparr>reply_to = Some ''R'', correlation_id = Some ''C''\<rparr>"]
  have 1: "serve (\<lambda>b. Inl (Exc ''JSONDecodeError'')) (\<lambda>j. '''') (RPCServer Map.empty ''srv'')
      \<lparr>delivery_tag = 1\<rparr> \<lparr>reply_to = Some ''R'', correlation_id = Some ''C''\<rparr> ''{'' =
     \<lparr>channel = [], invoked = [], raised = Some (Exc ''JSONDecodeError'')\<rparr>"
    using u [where props = "\<lparr>reply_to = Some ''R'', correlation_id = Some ''C''\<rparr>"
        and e = "Exc ''JSONDecodeError''", THEN conjunct1, of "\<lparr>delivery_tag = 1\<rparr>"]
    by simp
  have 2: "acks (channel (serve (\<lambda>b. Inl (Exc ''JSONDecodeError'')) (\<lambda>j. '''')
      (RPCServer Map.empty ''srv'')
      \<lparr>delivery_tag = 1\<rparr> \<lparr>reply_to = None, correlation_id = None\<rparr> ''{'')) = []"
    using u [where props = "\<lparr>reply_to = None, correlation_id = None\<rparr>"
        and e' = "Exc ''JSONDecodeError''", THEN conjunct2, THEN conjunct1,
        of "\<lparr>delivery_tag = 1\<rparr>"]
    by (simp add: serve_def raises_def)
  have 3: "acks (channel (serve Inr (\<lambda>j. j) (RPCServer Map.empty ''srv'') \<lparr>delivery_tag = 1\<rparr>
      \<lparr>reply_to = Some ''R'', correlation_id = Some ''C''\<rparr> (JObj [''args'' \<mapsto> JObj Map.empty]))) = [1]"
    using v [where body = "JObj [''args'' \<mapsto> JObj Map.empty]",
        THEN conjunct2, THEN conjunct2, THEN conjunct1, of "\<lparr>delivery_tag = 1\<rparr>"]
    unfolding missing_method_run by (simp add: replied_error_fields)
  have 4: "acks (channel (serve Inr (\<lambda>j. j) (RPCServer Map.empty ''srv'') \<lparr>delivery_tag = 1\<rparr>
      \<lparr>reply_to = Some ''R'', correlation_id = Some ''C''\<rparr>
      (JObj [''method'' \<mapsto> JStr ''echo'', ''args'' \<mapsto> JObj [''msg'' \<mapsto> JStr ''hi'']]))) = [1]"
    using v [where body = "JObj [''method'' \<mapsto> JStr ''echo'', ''args'' \<mapsto> JObj [''msg'' \<mapsto> JStr ''hi'']]"
        and nm = "''echo''" and kw = "[''msg'' \<mapsto> JStr ''hi'']"
        and t = "bound_method ''echo'' ''srv''"
        and ps = "[positional ''msg'', positional ''reply_fun'']" and b = echo,
        THEN conjunct2, THEN conjunct2, THEN conjunct2, of "\<lparr>delivery_tag = 1\<rparr>"]
    unfolding echo_run by (simp add: RPCServer_echo echo_def)
  from 1 2 3 4 show ?thesis by blast
qed

text \<open>
  C3. With the handler \<open>echo\<close> of the class, which declares \<open>msg\<close>, the request
  \<open>{"method": "echo", "args": {"msg": "hi"}}\<close> on a delivery with reply address \<open>R\<close> and
  correlation id \<open>C\<close> makes exactly one publication, to \<open>R\<close> with correlation id \<open>C\<close> and
  the encoding of \<open>"hi"\<close> as body, then exactly one acknowledgement, and nothing else;
  \<open>echo\<close> is the handler entered, and \<open>serve\<close> returns.
\<close>

theorem echo_request_publishes_then_acks:
  assumes "decode_json body =
      Inr (JObj [''method'' \<mapsto> JStr ''echo'', ''args'' \<mapsto> JObj [''msg'' \<mapsto> JStr ''hi'']])"
    and "reply_to props = Some R"
  shows "serve decode_json encode_json (RPCServer inherited obj) method props body =
     \<lparr>channel = [basic_publish '''' R (correlation_id props) (encode_json (JStr ''hi'')),
                 basic_ack (delivery_tag method)],
      invoked = [(''echo'', [''msg'' \<mapsto> JStr ''hi''])], raised = None\<rparr>"
  using assms by (rule echo_request_eval)

theorem echo_request_publishes_then_acks_witness:
  "serve Inr (\<lambda>j. j) (RPCServer Map.empty ''srv'') \<lparr>delivery_tag = 1\<rparr>
      \<lparr>reply_to = Some ''R'', correlation_id = Some ''C''\<rparr>
      (JObj [''method'' \<mapsto> JStr ''echo'', ''args'' \<mapsto> JObj [''msg'' \<mapsto> JStr ''hi'']]) =
     \<lparr>channel = [basic_publish '''' ''R'' (Some ''C'') (JStr ''hi''), basic_ack 1],
      invoked = [(''echo'', [''msg'' \<mapsto> JStr ''hi''])], raised = None\<rparr>"
  using echo_request_publishes_then_acks [where decode_json = Inr and encode_json = "\<lambda>j. j"
      and inherited = Map.empty and obj = "''srv''"
      and props = "\<lparr>reply_to = Some ''R'', correlation_id = Some ''C''\<rparr>" and R = "''R''"
      and body = "JObj [''method'' \<mapsto> JStr ''echo'', ''args'' \<mapsto> JObj [''msg'' \<mapsto> JStr ''hi'']]",
      of "\<lparr>delivery_tag = 1\<rparr>"]
  by simp

text \<open>
  C4. The claim lists four checks (method present, method resolvable, args present,
  each declared argument present) and has the earliest failing one of them decide the
  reply. Between the third and the fourth the code checks that the method declares
  \<open>reply_fun\<close> (lines 129 to 133). The request \<open>{"method": "setup", "args": {}}\<close> passes
  the first three and fails the fourth, \<open>routing_key\<close> being absent, yet the reply is the
  \<open>reply_fun\<close> error and not the missing-argument error.
\<close>

theorem reply_fun_check_precedes_arguments_counterexample:
  "serve Inr (\<lambda>j. j) (RPCServer Map.empty ''srv'') \<lparr>delivery_tag = 1\<rparr>
      \<lparr>reply_to = Some ''R'', correlation_id = Some ''C''\<rparr>
      (JObj [''method'' \<mapsto> JStr ''setup'', ''args'' \<mapsto> JObj Map.empty]) =
     replied_error (\<lambda>j. j) \<lparr>delivery_tag = 1\<rparr>
       \<lparr>reply_to = Some ''R'', correlation_id = Some ''C''\<rparr> ''R''
       ''Method <bound method RPCServer.setup of srv> must declare a parameter 'reply_fun' that must be invoked to reply to an invokation.'' \<and>
   serve Inr (\<lambda>j. j) (RPCServer Map.empty ''srv'') \<lparr>delivery_tag = 1\<rparr>
      \<lparr>reply_to = Some ''R'', correlation_id = Some ''C''\<rparr>
      (JObj [''method'' \<mapsto> JStr ''setup'', ''args'' \<mapsto> JObj Map.empty]) \<noteq>
     replied_error (\<lambda>j. j) \<lparr>delivery_tag = 1\<rparr>
       \<lparr>reply_to = Some ''R'', correlation_id = Some ''C''\<rparr> ''R''
       ''Message received does not specify argument routing_key in attribute args.''"
proof -
  have run: "serve Inr (\<lambda>j. j) (RPCServer Map.empty ''srv'') \<lparr>delivery_tag = 1\<rparr>
      \<lparr>reply_to = Some ''R'', correlation_id = Some ''C''\<rparr>
      (JObj [''method'' \<mapsto> JStr ''setup'', ''args'' \<mapsto> JObj Map.empty]) =
     replied_error (\<lambda>j. j) \<lparr>delivery_tag = 1\<rparr>
       \<lparr>reply_to = Some ''R'', correlation_id = Some ''C''\<rparr> ''R''
       ''Method <bound method RPCServer.setup of srv> must declare a parameter 'reply_fun' that must be invoked to reply to an invokation.''"
    using serve_no_reply_fun [where decode_json = Inr and encode_json = "\<lambda>j. j"
      and self = "RPCServer Map.empty ''srv''"
      and props = "\<lparr>reply_to = Some ''R'', correlation_id = Some ''C''\<rparr>" and R = "''R''"
      and body = "JObj [''method'' \<mapsto> JStr ''setup'', ''args'' \<mapsto> JObj Map.empty]"
      and req = "[''method'' \<mapsto> JStr ''setup'', ''args'' \<mapsto> JObj Map.empty]"
      and nm = "''setup''" and t = "bound_method ''setup'' ''srv''"
      and ps = "[positional ''routing_key'', positional ''queue_name'']" and b = "\<lambda>kw. []"
      and a = "JObj Map.empty", of "\<lparr>delivery_tag = 1\<rparr>"]
    by (simp add: RPCServer_setup positional_sel bound_method_def)
  have "''Method <bound method RPCServer.setup of srv> must declare a parameter 'reply_fun' that must be invoked to reply to an invokation.'' \<noteq>
      ''Message received does not specify argument routing_key in attribute args.''"
    by simp
  then have "replied_error (\<lambda>j. j) \<lparr>delivery_tag = 1\<rparr>
       \<lparr>reply_to = Some ''R'', correlation_id = Some ''C''\<rparr> ''R''
       ''Method <bound method RPCServer.setup of srv> must declare a parameter 'reply_fun' that must be invoked to reply to an invokation.'' \<noteq>
     replied_error (\<lambda>j. j) \<lparr>delivery_tag = 1\<rparr>
       \<lparr>reply_to = Some ''R'', correlation_id = Some ''C''\<rparr> ''R''
       ''Message received does not specify argument routing_key in attribute args.''"
    using replied_error_text [where encode_json = "\<lambda>j. j :: json"] by (blast intro: injI)
  with run show ?thesis by simp
qed

text \<open>
  C4, as amended. The checks are five and run in the order of the source: method
  present, method resolvable, args present, \<open>reply_fun\<close> declared by the resolved method,
  each declared argument present. The first one that fails decides the single reply,
  whatever the later ones would find. For a request that decodes to a dict, on a delivery
  with reply address \<open>R\<close>: without \<open>method\<close> the reply is the missing-method error (also
  when \<open>args\<close> is missing too); with a method name that \<open>getattr\<close> resolves to \<open>None\<close> it
  is the unknown-method error (also when \<open>args\<close> is missing); with a resolved method and
  no \<open>args\<close> it is the missing-args error (whatever the signature); with \<open>args\<close> and a
  method that does not declare \<open>reply_fun\<close> it is the \<open>reply_fun\<close> error (whatever
  declared arguments are missing); and with \<open>args\<close> a dict and a method that declares
  \<open>reply_fun\<close>, it names the first parameter in declaration order that \<open>args\<close> lacks
  (whatever later parameters are missing). Each time the run is one publication, one
  acknowledgement, no handler.
\<close>

theorem validation_order:
  assumes "decode_json body = Inr (JObj req)" and "reply_to props = Some R"
  shows
   "(req ''method'' = None \<longrightarrow>
       serve decode_json encode_json self method props body =
         replied_error encode_json method props R ''Attribute method must be specified.'') \<and>
    (req ''method'' = Some (JStr nm) \<and> getattr self nm PyNone = PyNone \<longrightarrow>
       serve decode_json encode_json self method props body =
         replied_error encode_json method props R
           (''Method specified does not exist: '' @ nm @ ''.'')) \<and>
    (req ''method'' = Some (JStr nm) \<and> self nm = Some op \<and> op \<noteq> PyNone \<and> req ''args'' = None \<longrightarrow>
       serve decode_json encode_json self method props body =
         replied_error encode_json method props R
           ''Message received does not have arguments in attribute args.'') \<and>
    (req ''method'' = Some (JStr nm) \<and> self nm = Some (PyCallable t ps b) \<and>
     req ''args'' = Some a \<and> ''reply_fun'' \<notin> set (map name ps) \<longrightarrow>
       serve decode_json encode_json self method props body =
         replied_error encode_json method props R (''Method '' @ t @
           '' must declare a parameter 'reply_fun' that must be invoked to reply to an invokation.'')) \<and>
    (req ''method'' = Some (JStr nm) \<and> self nm = Some (PyCallable t (ps1 @ p # ps2) b) \<and>
     req ''args'' = Some (JObj kw) \<and> ''reply_fun'' \<in> set (map name (ps1 @ p # ps2)) \<and>
     (\<forall>q\<in>set ps1. name q = ''reply_fun'' \<or> kw (name q) \<noteq> None) \<and>
     name p \<noteq> ''reply_fun'' \<and> kw (name p) = None \<longrightarrow>
       serve decode_json encode_json self method props body =
         replied_error encode_json method props R
           (''Message received does not specify argument '' @ name p @ '' in attribute args.''))"
proof -
  note A = serve_missing_method [where decode_json = decode_json and body = body, OF assms]
  note B = serve_unknown_method [where decode_json = decode_json and body = body, OF assms]
  note C = serve_missing_args [where decode_json = decode_json and body = body, OF assms]
  note D = serve_missing_argument [where decode_json = decode_json and body = body, OF assms]
  note E = serve_no_reply_fun [where decode_json = decode_json and body = body, OF assms]
  show ?thesis
    apply (intro conjI impI)
    subgoal by (rule A)
    subgoal by (elim conjE, rule B; assumption)
    subgoal by (elim conjE, rule C; assumption)
    subgoal by (elim conjE, rule E; assumption)
    subgoal by (elim conjE, rule D; assumption)
    done
qed

theorem validation_order_witness:
  "serve Inr (\<lambda>j. j) (RPCServer Map.empty ''srv'') \<lparr>delivery_tag = 1\<rparr>
      \<lparr>reply_to = Some ''R'', correlation_id = Some ''C''\<rparr> (JObj Map.empty) =
     replied_error (\<lambda>j. j) \<lparr>delivery_tag = 1\<rparr> \<lparr>reply_to = Some ''R'', correlation_id = Some ''C''\<rparr>
       ''R'' ''Attribute method must be specified.'' \<and>
   serve Inr (\<lambda>j. j) (RPCServer Map.empty ''srv'') \<lparr>delivery_tag = 1\<rparr>
      \<lparr>reply_to = Some ''R'', correlation_id = Some ''C''\<rparr> (JObj [''method'' \<mapsto> JStr ''foo'']) =
     replied_error (\<lambda>j. j) \<lparr>delivery_tag = 1\<rparr> \<lparr>reply_to = Some ''R'', correlation_id = Some ''C''\<rparr>
       ''R'' ''Method specified does not exist: foo.'' \<and>
   serve Inr (\<lambda>j. j) (RPCServer Map.empty ''srv'') \<lparr>delivery_tag = 1\<rparr>
      \<lparr>reply_to = Some ''R'', correlation_id = Some ''C''\<rparr> (JObj [''method'' \<mapsto> JStr ''echo'']) =
     replied_error (\<lambda>j. j) \<lparr>delivery_tag = 1\<rparr> \<lparr>reply_to = Some ''R'', correlation_id = Some ''C''\<rparr>
       ''R'' ''Message received does not have arguments in attribute args.'' \<and>
   serve Inr (\<lambda>j. j) (RPCServer Map.empty ''srv'') \<lparr>delivery_tag = 1\<rparr>
      \<lparr>reply_to = Some ''R'', correlation_id = Some ''C''\<rparr>
      (JObj [''method'' \<mapsto> JStr ''setup'', ''args'' \<mapsto> JObj Map.empty]) =
     replied_error (\<lambda>j. j) \<lparr>delivery_tag = 1\<rparr> \<lparr>reply_to = Some ''R'', correlation_id = Some ''C''\<rparr>
       ''R'' ''Method <bound method RPCServer.setup of srv> must declare a parameter 'reply_fun' that must be invoked to reply to an invokation.'' \<and>
   serve Inr (\<lambda>j. j) (RPCServer Map.empty ''srv'') \<lparr>delivery_tag = 1\<rparr>
      \<lparr>reply_to = Some ''R'', correlation_id = Some ''C''\<rparr>
      (JObj [''method'' \<mapsto> JStr ''echo'', ''args'' \<mapsto> JObj Map.empty]) =
     replied_error (\<lambda>j. j) \<lparr>delivery_tag = 1\<rparr> \<lparr>reply_to = Some ''R'', correlation_id = Some ''C''\<rparr>
       ''R'' ''Message received does not specify argument msg in attribute args.''"
proof -
  note v = validation_order [where decode_json = Inr and encode_json = "\<lambda>j. j"
      and self = "RPCServer Map.empty ''srv''"
      and props = "\<lparr>reply_to = Some ''R'', correlation_id = Some ''C''\<rparr>" and R = "''R''"]
  have 1: "serve Inr (\<lambda>j. j) (RPCServer Map.empty ''srv'') \<lparr>delivery_tag = 1\<rparr>
      \<lparr>reply_to = Some ''R'', correlation_id = Some ''C''\<rparr> (JObj Map.empty) =
     replied_error (\<lambda>j. j) \<lparr>delivery_tag = 1\<rparr> \<lparr>reply_to = Some ''R'', correlation_id = Some ''C''\<rparr>
       ''R'' ''Attribute method must be specified.''"
    using v [where body = "JObj Map.empty" and req = Map.empty, THEN conjunct1,
        of "\<lparr>delivery_tag = 1\<rparr>"]
    by simp
  have 2: "serve Inr (\<lambda>j. j) (RPCServer Map.empty ''srv'') \<lparr>delivery_tag = 1\<rparr>
      \<lparr>reply_to = Some ''R'', correlation_id = Some ''C''\<rparr> (JObj [''method'' \<mapsto> JStr ''foo'']) =
     replied_error (\<lambda>j. j) \<lparr>delivery_tag = 1\<rparr> \<lparr>reply_to = Some ''R'', correlation_id = Some ''C''\<rparr>
       ''R'' ''Method specified does not exist: foo.''"
    using v [where body = "JObj [''method'' \<mapsto> JStr ''foo'']" and req = "[''method'' \<mapsto> JStr ''foo'']"
        and nm = "''foo''", THEN conjunct2, THEN conjunct1, of "\<lparr>delivery_tag = 1\<rparr>"]
    by (simp add: getattr_def RPCServer_foo)
  have 3: "serve Inr (\<lambda>j. j) (RPCServer Map.empty ''srv'') \<lparr>delivery_tag = 1\<rparr>
      \<lparr>reply_to = Some ''R'', correlation_id = Some ''C''\<rparr> (JObj [''method'' \<mapsto> JStr ''echo'']) =
     replied_error (\<lambda>j. j) \<lparr>delivery_tag = 1\<rparr> \<lparr>reply_to = Some ''R'', correlation_id = Some ''C''\<rparr>
       ''R'' ''Message received does not have arguments in attribute args.''"
    using v [where body = "JObj [''method'' \<mapsto> JStr ''echo'']" and req = "[''method'' \<mapsto> JStr ''echo'']"
        and nm = "''echo''"
        and op = "PyCallable (bound_method ''echo'' ''srv'') [positional ''msg'', positional ''reply_fun''] echo",
        THEN conjunct2, THEN conjunct2, THEN conjunct1, of "\<lparr>delivery_tag = 1\<rparr>"]
    by (simp add: RPCServer_echo)
  have 4: "serve Inr (\<lambda>j. j) (RPCServer Map.empty ''srv'') \<lparr>delivery_tag = 1\<rparr>
      \<lparr>reply_to = Some ''R'', correlation_id = Some ''C''\<rparr>
      (JObj [''method'' \<mapsto> JStr ''echo'', ''args'' \<mapsto> JObj Map.empty]) =
     replied_error (\<lambda>j. j) \<lparr>delivery_tag = 1\<rparr> \<lparr>reply_to = Some ''R'', correlation_id = Some ''C''\<rparr>
       ''R'' ''Message received does not specify argument msg in attribute args.''"
    using v [where body = "JObj [''method'' \<mapsto> JStr ''echo'', ''args'' \<mapsto> JObj Map.empty]"
        and req = "[''method'' \<mapsto> JStr ''echo'', ''args'' \<mapsto> JObj Map.empty]"
        and nm = "''echo''" and t = "bound_method ''echo'' ''srv''" and ?ps1.0 = "[]"
        and p = "positional ''msg''" and ?ps2.0 = "[positional ''reply_fun'']" and b = echo
        and kw = Map.empty,
        THEN conjunct2, THEN conjunct2, THEN conjunct2, THEN conjunct2, of "\<lparr>delivery_tag = 1\<rparr>"]
    by (simp add: RPCServer_echo positional_sel)
  have 5: "serve Inr (\<lambda>j. j) (RPCServer Map.empty ''srv'') \<lparr>delivery_tag = 1\<rparr>
      \<lparr>reply_to = Some ''R'', correlation_id = Some ''C''\<rparr>
      (JObj [''method'' \<mapsto> JStr ''setup'', ''args'' \<mapsto> JObj Map.empty]) =
     replied_error (\<lambda>j. j) \<lparr>delivery_tag = 1\<rparr> \<lparr>reply_to = Some ''R'', correlation_id = Some ''C''\<rparr>
       ''R'' ''Method <bound method RPCServer.setup of srv> must declare a parameter 'reply_fun' that must be invoked to reply to an invokation.''"
    using v [where body = "JObj [''method'' \<mapsto> JStr ''setup'', ''args'' \<mapsto> JObj Map.empty]"
        and req = "[''method'' \<mapsto> JStr ''setup'', ''args'' \<mapsto> JObj Map.empty]"
        and nm = "''setup''" and t = "bound_method ''setup'' ''srv''"
        and ps = "[positional ''routing_key'', positional ''queue_name'']" and b = "\<lambda>kw. []"
        and a = "JObj Map.empty",
        THEN conjunct2, THEN conjunct2, THEN conjunct2, THEN conjunct1,
        of "\<lparr>delivery_tag = 1\<rparr>"]
    by (simp add: RPCServer_setup positional_sel bound_method_def)
  from 1 2 3 5 4 show ?thesis by blast
qed

text \<open>
  C5. One call of \<open>reply\<close> is the publication of the encoded message to the reply
  address with the correlation id, on the default exchange, followed by the
  acknowledgement of the delivery. And in every run of \<open>serve\<close> on a delivery with a
  reply address the channel sees nothing but such pairs: each publication goes to that
  address with that correlation id and is followed at once by the acknowledgement
  (the error replies and every \<open>reply_fun\<close> call of a handler).
\<close>

theorem reply_publishes_then_acknowledges:
  "reply encode_json R C method msg =
     [basic_publish '''' R C (encode_json msg), basic_ack (delivery_tag method)] \<and>
   (reply_to props = Some R \<longrightarrow>
      publish_then_ack R (correlation_id props) (delivery_tag method)
        (channel (serve decode_json encode_json self method props body)))"
proof (intro conjI impI)
  show "reply encode_json R C method msg =
     [basic_publish '''' R C (encode_json msg), basic_ack (delivery_tag method)]"
    by (simp add: reply_def)
next
  assume R: "reply_to props = Some R"
  show "publish_then_ack R (correlation_id props) (delivery_tag method)
        (channel (serve decode_json encode_json self method props body))"
  proof (cases rule: serve_run [of decode_json encode_json self "method" props body])
    case (raise e)
    then show ?thesis by (simp add: raises_def)
  next
    case noreply
    with R show ?thesis by simp
  next
    case (error R' etext)
    with R show ?thesis by (simp add: replied_error_def)
  next
    case (handler R' req nm t ps b kw)
    with R have "R' = R" by simp
    with handler(9) show ?thesis by (simp add: run_handler_publish_then_ack)
  qed
qed

theorem reply_publishes_then_acknowledges_witness:
  "reply (\<lambda>j. j) ''R'' (Some ''C'') \<lparr>delivery_tag = 1\<rparr> (JStr ''hi'') =
     [basic_publish '''' ''R'' (Some ''C'') (JStr ''hi''), basic_ack 1] \<and>
   publish_then_ack ''R'' (Some ''C'') 1
     (channel (serve Inr (\<lambda>j. j) (RPCServer Map.empty ''srv'') \<lparr>delivery_tag = 1\<rparr>
        \<lparr>reply_to = Some ''R'', correlation_id = Some ''C''\<rparr>
        (JObj [''method'' \<mapsto> JStr ''echo'', ''args'' \<mapsto> JObj [''msg'' \<mapsto> JStr ''hi'']])))"
  using reply_publishes_then_acknowledges [where encode_json = "\<lambda>j. j" and R = "''R''"
      and C = "Some ''C''" and msg = "JStr ''hi''" and decode_json = Inr
      and self = "RPCServer Map.empty ''srv''"
      and props = "\<lparr>reply_to = Some ''R'', correlation_id = Some ''C''\<rparr>"
      and body = "JObj [''method'' \<mapsto> JStr ''echo'', ''args'' \<mapsto> JObj [''msg'' \<mapsto> JStr ''hi'']]",
      of "\<lparr>delivery_tag = 1\<rparr>"]
  by simp

text \<open>
  C6. The claim gives the reply to a request without \<open>method\<close> the text
  \<open>Attribute 'method' must be specified.\<close>; the f-string of line 104 interpolates the
  constant \<open>METHOD_ATTRIBUTE\<close> without quotes. At the request \<open>{"args": {}}\<close> the run is
  not the one that publishes the quoted text.
\<close>

theorem missing_method_quoted_text_counterexample:
  "serve Inr (\<lambda>j. j) (RPCServer Map.empty ''srv'') \<lparr>delivery_tag = 1\<rparr>
      \<lparr>reply_to = Some ''R'', correlation_id = Some ''C''\<rparr> (JObj [''args'' \<mapsto> JObj Map.empty]) \<noteq>
   replied_error (\<lambda>j. j) \<lparr>delivery_tag = 1\<rparr> \<lparr>reply_to = Some ''R'', correlation_id = Some ''C''\<rparr>
     ''R'' ''Attribute 'method' must be specified.''"
proof
  assume "serve Inr (\<lambda>j. j) (RPCServer Map.empty ''srv'') \<lparr>delivery_tag = 1\<rparr>
      \<lparr>reply_to = Some ''R'', correlation_id = Some ''C''\<rparr> (JObj [''args'' \<mapsto> JObj Map.empty]) =
   replied_error (\<lambda>j. j) \<lparr>delivery_tag = 1\<rparr> \<lparr>reply_to = Some ''R'', correlation_id = Some ''C''\<rparr>
     ''R'' ''Attribute 'method' must be specified.''"
  then have "replied_error (\<lambda>j. j) \<lparr>delivery_tag = 1\<rparr> \<lparr>reply_to = Some ''R'', correlation_id = Some ''C''\<rparr>
     ''R'' ''Attribute method must be specified.'' =
   replied_error (\<lambda>j. j) \<lparr>delivery_tag = 1\<rparr> \<lparr>reply_to = Some ''R'', correlation_id = Some ''C''\<rparr>
     ''R'' ''Attribute 'method' must be specified.''"
    by (simp add: serve_missing_method [where req = "[''args'' \<mapsto> JObj Map.empty]"])
  then have "''Attribute method must be specified.'' = ''Attribute 'method' must be specified.''"
    by (rule replied_error_text) (simp add: inj_def)
  then show False by simp
qed

text \<open>
  C6, as amended. For every request that decodes to a dict without the key \<open>method\<close>, on
  a delivery with reply address \<open>R\<close>, exactly one reply is published, to \<open>R\<close> with the
  correlation id of the request and the body \<open>{"error": "Attribute method must be
  specified."}\<close>, then the delivery is acknowledged; no handler is entered.
\<close>

theorem missing_method_reply:
  assumes "decode_json body = Inr (JObj req)" and "req ''method'' = None"
    and "reply_to props = Some R"
  shows "serve decode_json encode_json self method props body =
     replied_error encode_json method props R ''Attribute method must be specified.''"
  using assms(1,3,2) by (rule serve_missing_method)

theorem missing_method_reply_witness:
  "serve Inr (\<lambda>j. j) (RPCServer Map.empty ''srv'') \<lparr>delivery_tag = 1\<rparr>
      \<lparr>reply_to = Some ''R'', correlation_id = Some ''C''\<rparr> (JObj [''args'' \<mapsto> JObj Map.empty]) =
   \<lparr>channel = [basic_publish '''' ''R'' (Some ''C'')
                  (JObj [''error'' \<mapsto> JStr ''Attribute method must be specified.'']),
                basic_ack 1],
     invoked = [], raised = None\<rparr>"
  using missing_method_reply [where decode_json = Inr and encode_json = "\<lambda>j. j"
      and self = "RPCServer Map.empty ''srv''"
      and props = "\<lparr>reply_to = Some ''R'', correlation_id = Some ''C''\<rparr>" and R = "''R''"
      and body = "JObj [''args'' \<mapsto> JObj Map.empty]" and req = "[''args'' \<mapsto> JObj Map.empty]",
      of "\<lparr>delivery_tag = 1\<rparr>"]
  by (simp add: replied_error_def)

text \<open>
  C7. The claim gives the reply for a missing argument \<open>x\<close> the text
  \<open>... does not specify argument x in attribute 'args'.\<close>; the f-string of line 138
  interpolates \<open>ARGS_ATTRIBUTE\<close> without quotes. At the request to \<open>echo\<close> with
  \<open>args = {}\<close> the run is not the one that publishes the quoted text.
\<close>

theorem missing_argument_quoted_text_counterexample:
  "serve Inr (\<lambda>j. j) (RPCServer Map.empty ''srv'') \<lparr>delivery_tag = 1\<rparr>
      \<lparr>reply_to = Some ''R'', correlation_id = Some ''C''\<rparr>
      (JObj [''method'' \<mapsto> JStr ''echo'', ''args'' \<mapsto> JObj Map.empty]) \<noteq>
   replied_error (\<lambda>j. j) \<lparr>delivery_tag = 1\<rparr> \<lparr>reply_to = Some ''R'', correlation_id = Some ''C''\<rparr>
     ''R'' ''Message received does not specify argument msg in attribute 'args'.''"
proof
  assume "serve Inr (\<lambda>j. j) (RPCServer Map.empty ''srv'') \<lparr>delivery_tag = 1\<rparr>
      \<lparr>reply_to = Some ''R'', correlation_id = Some ''C''\<rparr>
      (JObj [''method'' \<mapsto> JStr ''echo'', ''args'' \<mapsto> JObj Map.empty]) =
   replied_error (\<lambda>j. j) \<lparr>delivery_tag = 1\<rparr> \<lparr>reply_to = Some ''R'', correlation_id = Some ''C''\<rparr>
     ''R'' ''Message received does not specify argument msg in attribute 'args'.''"
  moreover have "serve Inr (\<lambda>j. j) (RPCServer Map.empty ''srv'') \<lparr>delivery_tag = 1\<rparr>
      \<lparr>reply_to = Some ''R'', correlation_id = Some ''C''\<rparr>
      (JObj [''method'' \<mapsto> JStr ''echo'', ''args'' \<mapsto> JObj Map.empty]) =
   replied_error (\<lambda>j. j) \<lparr>delivery_tag = 1\<rparr> \<lparr>reply_to = Some ''R'', correlation_id = Some ''C''\<rparr>
     ''R'' (''Message received does not specify argument '' @ name (positional ''msg'') @ '' in attribute args.'')"
    by (rule serve_missing_argument [where
          req = "[''method'' \<mapsto> JStr ''echo'', ''args'' \<mapsto> JObj Map.empty]"
          and nm = "''echo''" and t = "bound_method ''echo'' ''srv''" and ?ps1.0 = "[]"
          and ?ps2.0 = "[positional ''reply_fun'']" and b = echo and kw = Map.empty])
       (simp_all add: RPCServer_echo positional_sel)
  ultimately have "replied_error (\<lambda>j. j) \<lparr>delivery_tag = 1\<rparr> \<lparr>reply_to = Some ''R'', correlation_id = Some ''C''\<rparr>
     ''R'' (''Message received does not specify argument '' @ name (positional ''msg'') @ '' in attribute args.'') =
   replied_error (\<lambda>j. j) \<lparr>delivery_tag = 1\<rparr> \<lparr>reply_to = Some ''R'', correlation_id = Some ''C''\<rparr>
     ''R'' ''Message received does not specify argument msg in attribute 'args'.''"
    by simp
  then have "''Message received does not specify argument '' @ name (positional ''msg'') @ '' in attribute args.'' =
      ''Message received does not specify argument msg in attribute 'args'.''"
    by (rule replied_error_text) (simp add: inj_def)
  then show False by (simp add: positional_sel)
qed

text \<open>
  C7, as amended. When the resolved handler declares \<open>reply_fun\<close> and \<open>p\<close> is the first of
  its parameters, in declaration order and \<open>reply_fun\<close> apart, that the dict \<open>args\<close> lacks,
  the one reply is \<open>{"error": "Message received does not specify argument p in attribute
  args."}\<close>, and no handler is entered. And a handler is entered only when every check
  has passed: the payload decodes to a dict, there is a reply address, \<open>method\<close> names an
  attribute that is a callable declaring \<open>reply_fun\<close>, \<open>args\<close> is a dict, and every
  declared parameter but \<open>reply_fun\<close> is a key of it; the handler entered is that method,
  once.
\<close>

theorem missing_argument_reply:
  "(decode_json body = Inr (JObj req) \<and> reply_to props = Some R \<and>
    req ''method'' = Some (JStr nm) \<and> self nm = Some (PyCallable t (ps1 @ p # ps2) b) \<and>
    req ''args'' = Some (JObj kw) \<and> ''reply_fun'' \<in> set (map name (ps1 @ p # ps2)) \<and>
    (\<forall>q\<in>set ps1. name q = ''reply_fun'' \<or> kw (name q) \<noteq> None) \<and>
    name p \<noteq> ''reply_fun'' \<and> kw (name p) = None \<longrightarrow>
      serve decode_json encode_json self method props body =
        replied_error encode_json method props R
          (''Message received does not specify argument '' @ name p @ '' in attribute args.'')) \<and>
   (invoked (serve decode_json encode_json self method props body) \<noteq> [] \<longrightarrow>
      (\<exists>req' nm' t' ps' b' kw'.
         decode_json body = Inr (JObj req') \<and> reply_to props \<noteq> None \<and>
         req' ''method'' = Some (JStr nm') \<and> self nm' = Some (PyCallable t' ps' b') \<and>
         req' ''args'' = Some (JObj kw') \<and> ''reply_fun'' \<in> set (map name ps') \<and>
         (\<forall>q\<in>set ps'. name q = ''reply_fun'' \<or> kw' (name q) \<noteq> None) \<and>
         invoked (serve decode_json encode_json self method props body) = [(nm', kw')]))"
proof (intro conjI impI)
  assume "decode_json body = Inr (JObj req) \<and> reply_to props = Some R \<and>
    req ''method'' = Some (JStr nm) \<and> self nm = Some (PyCallable t (ps1 @ p # ps2) b) \<and>
    req ''args'' = Some (JObj kw) \<and> ''reply_fun'' \<in> set (map name (ps1 @ p # ps2)) \<and>
    (\<forall>q\<in>set ps1. name q = ''reply_fun'' \<or> kw (name q) \<noteq> None) \<and>
    name p \<noteq> ''reply_fun'' \<and> kw (name p) = None"
  then show "serve decode_json encode_json self method props body =
        replied_error encode_json method props R
          (''Message received does not specify argument '' @ name p @ '' in attribute args.'')"
    by (elim conjE) (rule serve_missing_argument [where decode_json = decode_json and body = body])
next
  assume inv: "invoked (serve decode_json encode_json self method props body) \<noteq> []"
  from serve_cases [of decode_json encode_json self "method" props body]
  consider
    (raise) e where "serve decode_json encode_json self method props body = raises e"
  | (noreply) "serve decode_json encode_json self method props body = returns [basic_ack (delivery_tag method)]"
  | (error) R' etext where
      "serve decode_json encode_json self method props body = replied_error encode_json method props R' etext"
  | (handler) R' req' nm' t' ps' b' kw' where "reply_to props = Some R'"
      "decode_json body = Inr (JObj req')" "req' ''method'' = Some (JStr nm')"
      "self nm' = Some (PyCallable t' ps' b')" "req' ''args'' = Some (JObj kw')"
      "''reply_fun'' \<in> set (map name ps')" "first_missing ps' (JObj kw') = Inr None"
      "invoked (serve decode_json encode_json self method props body) = [(nm', kw')]"
    by (elim disjE exE conjE) simp_all
  then show "\<exists>req' nm' t' ps' b' kw'.
         decode_json body = Inr (JObj req') \<and> reply_to props \<noteq> None \<and>
         req' ''method'' = Some (JStr nm') \<and> self nm' = Some (PyCallable t' ps' b') \<and>
         req' ''args'' = Some (JObj kw') \<and> ''reply_fun'' \<in> set (map name ps') \<and>
         (\<forall>q\<in>set ps'. name q = ''reply_fun'' \<or> kw' (name q) \<noteq> None) \<and>
         invoked (serve decode_json encode_json self method props body) = [(nm', kw')]"
  proof cases
    case raise
    with inv show ?thesis by (simp add: raises_def)
  next
    case noreply
    with inv show ?thesis by (simp add: returns_def)
  next
    case error
    with inv show ?thesis by (simp add: replied_error_def)
  next
    case handler
    from handler(7) have "\<forall>q\<in>set ps'. name q = ''reply_fun'' \<or> kw' (name q) \<noteq> None"
      by (simp add: first_missing_none)
    with handler show ?thesis by blast
  qed
qed

theorem missing_argument_reply_witness:
  "serve Inr (\<lambda>j. j) (RPCServer Map.empty ''srv'') \<lparr>delivery_tag = 1\<rparr>
      \<lparr>reply_to = Some ''R'', correlation_id = Some ''C''\<rparr>
      (JObj [''method'' \<mapsto> JStr ''echo'', ''args'' \<mapsto> JObj Map.empty]) =
     \<lparr>channel = [basic_publish '''' ''R'' (Some ''C'')
        (JObj [''error'' \<mapsto> JStr ''Message received does not specify argument msg in attribute args.'']),
        basic_ack 1],
      invoked = [], raised = None\<rparr> \<and>
   (\<exists>t ps b. RPCServer Map.empty ''srv'' ''echo'' = Some (PyCallable t ps b) \<and>
      ''reply_fun'' \<in> set (map name ps) \<and>
      (\<forall>q\<in>set ps. name q = ''reply_fun'' \<or> [''msg'' \<mapsto> JStr ''hi''] (name q) \<noteq> None))"
proof -
  note v = missing_argument_reply [where decode_json = Inr and encode_json = "\<lambda>j. j"
      and self = "RPCServer Map.empty ''srv''"
      and props = "\<lparr>reply_to = Some ''R'', correlation_id = Some ''C''\<rparr>"]
  have 1: "serve Inr (\<lambda>j. j) (RPCServer Map.empty ''srv'') \<lparr>delivery_tag = 1\<rparr>
      \<lparr>reply_to = Some ''R'', correlation_id = Some ''C''\<rparr>
      (JObj [''method'' \<mapsto> JStr ''echo'', ''args'' \<mapsto> JObj Map.empty]) =
     \<lparr>channel = [basic_publish '''' ''R'' (Some ''C'')
        (JObj [''error'' \<mapsto> JStr ''Message received does not specify argument msg in attribute args.'']),
        basic_ack 1],
      invoked = [], raised = None\<rparr>"
    using v [where body = "JObj [''method'' \<mapsto> JStr ''echo'', ''args'' \<mapsto> JObj Map.empty]"
        and req = "[''method'' \<mapsto> JStr ''echo'', ''args'' \<mapsto> JObj Map.empty]" and R = "''R''"
        and nm = "''echo''" and t = "bound_method ''echo'' ''srv''" and ?ps1.0 = "[]"
        and p = "positional ''msg''" and ?ps2.0 = "[positional ''reply_fun'']" and b = echo
        and kw = Map.empty, THEN conjunct1, of "\<lparr>delivery_tag = 1\<rparr>"]
    by (simp add: RPCServer_echo positional_sel replied_error_def)
  have 2: "\<exists>t ps b. RPCServer Map.empty ''srv'' ''echo'' = Some (PyCallable t ps b) \<and>
      ''reply_fun'' \<in> set (map name ps) \<and>
      (\<forall>q\<in>set ps. name q = ''reply_fun'' \<or> [''msg'' \<mapsto> JStr ''hi''] (name q) \<noteq> None)"
    using v [where body = "JObj [''method'' \<mapsto> JStr ''echo'', ''args'' \<mapsto> JObj [''msg'' \<mapsto> JStr ''hi'']]",
        THEN conjunct2, of "\<lparr>delivery_tag = 1\<rparr>"]
    unfolding echo_run by simp
  from 1 2 show ?thesis by blast
qed

text \<open>
  C8. The claim calls the path without reply address the only one that never calls a
  handler. A request without \<open>method\<close> on a delivery that has a reply address calls no
  handler either.
\<close>

theorem no_handler_with_reply_address_counterexample:
  "\<not> (invoked (serve Inr (\<lambda>j. j) (RPCServer Map.empty ''srv'') \<lparr>delivery_tag = 1\<rparr>
          \<lparr>reply_to = Some ''R'', correlation_id = Some ''C''\<rparr>
          (JObj [''args'' \<mapsto> JObj Map.empty])) = [] \<longrightarrow>
       reply_to \<lparr>reply_to = Some ''R'', correlation_id = Some ''C''\<rparr> = None)"
  by (simp add: serve_missing_method [where req = "[''args'' \<mapsto> JObj Map.empty]"]
      replied_error_def)

text \<open>
  C8, as amended. For every delivery whose payload decodes and whose reply address is
  absent, \<open>serve\<close> acknowledges the delivery exactly once, publishes nothing and enters no
  handler. It is the only path that returns having neither entered a handler nor
  published: with a reply address, a run that returns without entering a handler has
  published exactly one error reply and then acknowledged.
\<close>

theorem no_reply_address_acknowledges_only:
  "(decode_json body = Inr j \<and> reply_to props = None \<longrightarrow>
      serve decode_json encode_json self method props body =
        \<lparr>channel = [basic_ack (delivery_tag method)], invoked = [], raised = None\<rparr>) \<and>
   (reply_to props = Some R \<and>
    raised (serve decode_json encode_json self method props body) = None \<and>
    invoked (serve decode_json encode_json self method props body) = [] \<longrightarrow>
      (\<exists>etext. serve decode_json encode_json self method props body =
         replied_error encode_json method props R etext))"
proof (intro conjI impI)
  assume "decode_json body = Inr j \<and> reply_to props = None"
  then show "serve decode_json encode_json self method props body =
        \<lparr>channel = [basic_ack (delivery_tag method)], invoked = [], raised = None\<rparr>"
    by (simp add: serve_def returns_def)
next
  assume a: "reply_to props = Some R \<and>
    raised (serve decode_json encode_json self method props body) = None \<and>
    invoked (serve decode_json encode_json self method props body) = []"
  show "\<exists>etext. serve decode_json encode_json self method props body =
         replied_error encode_json method props R etext"
  proof (cases rule: serve_run [of decode_json encode_json self "method" props body])
    case (raise e)
    with a show ?thesis by (simp add: raises_def)
  next
    case noreply
    with a show ?thesis by simp
  next
    case (error R' etext)
    with a show ?thesis by auto
  next
    case (handler R' req nm t ps b kw)
    with a show ?thesis by simp
  qed
qed

theorem no_reply_address_acknowledges_only_witness:
  "serve Inr (\<lambda>j. j) (RPCServer Map.empty ''srv'') \<lparr>delivery_tag = 1\<rparr>
      \<lparr>reply_to = None, correlation_id = Some ''C''\<rparr>
      (JObj [''method'' \<mapsto> JStr ''echo'', ''args'' \<mapsto> JObj [''msg'' \<mapsto> JStr ''hi'']]) =
     \<lparr>channel = [basic_ack 1], invoked = [], raised = None\<rparr> \<and>
   (\<exists>etext. serve Inr (\<lambda>j. j) (RPCServer Map.empty ''srv'') \<lparr>delivery_tag = 1\<rparr>
      \<lparr>reply_to = Some ''R'', correlation_id = Some ''C''\<rparr> (JObj [''args'' \<mapsto> JObj Map.empty]) =
     replied_error (\<lambda>j. j) \<lparr>delivery_tag = 1\<rparr>
       \<lparr>reply_to = Some ''R'', correlation_id = Some ''C''\<rparr> ''R'' etext)"
proof -
  have 1: "serve Inr (\<lambda>j. j) (RPCServer Map.empty ''srv'') \<lparr>delivery_tag = 1\<rparr>
      \<lparr>reply_to = None, correlation_id = Some ''C''\<rparr>
      (JObj [''method'' \<mapsto> JStr ''echo'', ''args'' \<mapsto> JObj [''msg'' \<mapsto> JStr ''hi'']]) =
     \<lparr>channel = [basic_ack 1], invoked = [], raised = None\<rparr>"
    using no_reply_address_acknowledges_only [where decode_json = Inr and encode_json = "\<lambda>j. j"
      and self = "RPCServer Map.empty ''srv''"
      and props = "\<lparr>reply_to = None, correlation_id = Some ''C''\<rparr>"
      and body = "JObj [''method'' \<mapsto> JStr ''echo'', ''args'' \<mapsto> JObj [''msg'' \<mapsto> JStr ''hi'']]"
      and j = "JObj [''method'' \<mapsto> JStr ''echo'', ''args'' \<mapsto> JObj [''msg'' \<mapsto> JStr ''hi'']]",
      THEN conjunct1, of "\<lparr>delivery_tag = 1\<rparr>"]
    by simp
  have 2: "\<exists>etext. serve Inr (\<lambda>j. j) (RPCServer Map.empty ''srv'') \<lparr>delivery_tag = 1\<rparr>
      \<lparr>reply_to = Some ''R'', correlation_id = Some ''C''\<rparr> (JObj [''args'' \<mapsto> JObj Map.empty]) =
     replied_error (\<lambda>j. j) \<lparr>delivery_tag = 1\<rparr>
       \<lparr>reply_to = Some ''R'', correlation_id = Some ''C''\<rparr> ''R'' etext"
    using no_reply_address_acknowledges_only [where decode_json = Inr and encode_json = "\<lambda>j. j"
      and self = "RPCServer Map.empty ''srv''"
      and props = "\<lparr>reply_to = Some ''R'', correlation_id = Some ''C''\<rparr>" and R = "''R''"
      and body = "JObj [''args'' \<mapsto> JObj Map.empty]",
      THEN conjunct2, of "\<lparr>delivery_tag = 1\<rparr>"]
    unfolding missing_method_run by (simp add: replied_error_fields)
  from 1 2 show ?thesis by blast
qed

text \<open>
  C9. A resolved method whose signature has no parameter \<open>reply_fun\<close> is never entered.
  The check stands after the one for \<open>args\<close> and before those for the declared
  parameters: without \<open>args\<close> the reply is the missing-args error, and with \<open>args\<close>
  (whatever it holds, so also when declared parameters are missing from it) the reply is
  \<open>{"error": "Method <text of the method> must declare a parameter 'reply_fun' that must
  be invoked to reply to an invokation."}\<close>, followed by the acknowledgement.
\<close>

theorem reply_fun_parameter_required:
  assumes "decode_json body = Inr (JObj req)" and "reply_to props = Some R"
    and "req ''method'' = Some (JStr nm)" and "self nm = Some (PyCallable t ps b)"
    and "''reply_fun'' \<notin> set (map name ps)"
  shows
   "(req ''args'' = None \<longrightarrow>
       serve decode_json encode_json self method props body =
         replied_error encode_json method props R
           ''Message received does not have arguments in attribute args.'') \<and>
    (req ''args'' \<noteq> None \<longrightarrow>
       serve decode_json encode_json self method props body =
         replied_error encode_json method props R (''Method '' @ t @
           '' must declare a parameter 'reply_fun' that must be invoked to reply to an invokation.''))"
proof (intro conjI impI)
  assume "req ''args'' = None"
  with assms(1-4) show "serve decode_json encode_json self method props body =
      replied_error encode_json method props R
        ''Message received does not have arguments in attribute args.''"
    by (simp add: serve_missing_args)
next
  assume "req ''args'' \<noteq> None"
  then obtain a where "req ''args'' = Some a" by blast
  with assms show "serve decode_json encode_json self method props body =
      replied_error encode_json method props R (''Method '' @ t @
        '' must declare a parameter 'reply_fun' that must be invoked to reply to an invokation.'')"
    by (simp add: serve_no_reply_fun)
qed

theorem reply_fun_parameter_required_witness:
  "serve Inr (\<lambda>j. j) (RPCServer Map.empty ''srv'') \<lparr>delivery_tag = 1\<rparr>
      \<lparr>reply_to = Some ''R'', correlation_id = Some ''C''\<rparr>
      (JObj [''method'' \<mapsto> JStr ''serve'', ''args'' \<mapsto> JObj Map.empty]) =
     \<lparr>channel = [basic_publish '''' ''R'' (Some ''C'')
        (JObj [''error'' \<mapsto> JStr ''Method <bound method RPCServer.serve of srv> must declare a parameter 'reply_fun' that must be invoked to reply to an invokation.'']),
        basic_ack 1],
      invoked = [], raised = None\<rparr> \<and>
   serve Inr (\<lambda>j. j) (RPCServer Map.empty ''srv'') \<lparr>delivery_tag = 1\<rparr>
      \<lparr>reply_to = Some ''R'', correlation_id = Some ''C''\<rparr>
      (JObj [''method'' \<mapsto> JStr ''serve'']) =
     \<lparr>channel = [basic_publish '''' ''R'' (Some ''C'')
        (JObj [''error'' \<mapsto> JStr ''Message received does not have arguments in attribute args.'']),
        basic_ack 1],
      invoked = [], raised = None\<rparr>"
proof -
  note v = reply_fun_parameter_required [where decode_json = Inr and encode_json = "\<lambda>j. j"
      and self = "RPCServer Map.empty ''srv''"
      and props = "\<lparr>reply_to = Some ''R'', correlation_id = Some ''C''\<rparr>" and R = "''R''"
      and nm = "''serve''" and t = "bound_method ''serve'' ''srv''"
      and ps = "[positional ''ch'', positional ''method'', positional ''props'', positional ''body'']"
      and b = "\<lambda>kw. []"]
  have 1: "serve Inr (\<lambda>j. j) (RPCServer Map.empty ''srv'') \<lparr>delivery_tag = 1\<rparr>
      \<lparr>reply_to = Some ''R'', correlation_id = Some ''C''\<rparr>
      (JObj [''method'' \<mapsto> JStr ''serve'', ''args'' \<mapsto> JObj Map.empty]) =
     \<lparr>channel = [basic_publish '''' ''R'' (Some ''C'')
        (JObj [''error'' \<mapsto> JStr ''Method <bound method RPCServer.serve of srv> must declare a parameter 'reply_fun' that must be invoked to reply to an invokation.'']),
        basic_ack 1],
      invoked = [], raised = None\<rparr>"
    using v [where body = "JObj [''method'' \<mapsto> JStr ''serve'', ''args'' \<mapsto> JObj Map.empty]"
        and req = "[''method'' \<mapsto> JStr ''serve'', ''args'' \<mapsto> JObj Map.empty]",
        THEN conjunct2, of "\<lparr>delivery_tag = 1\<rparr>"]
    by (simp add: RPCServer_serve positional_sel replied_error_def bound_method_def)
  have 2: "serve Inr (\<lambda>j. j) (RPCServer Map.empty ''srv'') \<lparr>delivery_tag = 1\<rparr>
      \<lparr>reply_to = Some ''R'', correlation_id = Some ''C''\<rparr>
      (JObj [''method'' \<mapsto> JStr ''serve'']) =
     \<lparr>channel = [basic_publish '''' ''R'' (Some ''C'')
        (JObj [''error'' \<mapsto> JStr ''Message received does not have arguments in attribute args.'']),
        basic_ack 1],
      invoked = [], raised = None\<rparr>"
    using v [where body = "JObj [''method'' \<mapsto> JStr ''serve'']"
        and req = "[''method'' \<mapsto> JStr ''serve'']",
        THEN conjunct1, of "\<lparr>delivery_tag = 1\<rparr>"]
    by (simp add: RPCServer_serve positional_sel replied_error_def)
  from 1 2 show ?thesis by blast
qed

text \<open>
  C10. The claim has the unknown-method reply exactly when the name is not an attribute
  of the instance. \<open>getattr(self, name, None)\<close> also gives \<open>None\<close> for an attribute whose
  value is \<open>None\<close>: \<open>__weakref__\<close> is an attribute of the instance, and the request for it
  gets the unknown-method reply.
\<close>

theorem weakref_is_an_attribute_counterexample:
  "RPCServer Map.empty ''srv'' ''__weakref__'' \<noteq> None \<and>
   serve Inr (\<lambda>j. j) (RPCServer Map.empty ''srv'') \<lparr>delivery_tag = 1\<rparr>
      \<lparr>reply_to = Some ''R'', correlation_id = Some ''C''\<rparr>
      (JObj [''method'' \<mapsto> JStr ''__weakref__'', ''args'' \<mapsto> JObj Map.empty]) =
     replied_error (\<lambda>j. j) \<lparr>delivery_tag = 1\<rparr>
       \<lparr>reply_to = Some ''R'', correlation_id = Some ''C''\<rparr> ''R''
       ''Method specified does not exist: __weakref__.''"
proof
  show "RPCServer Map.empty ''srv'' ''__weakref__'' \<noteq> None"
    by (simp add: RPCServer_weakref)
  show "serve Inr (\<lambda>j. j) (RPCServer Map.empty ''srv'') \<lparr>delivery_tag = 1\<rparr>
      \<lparr>reply_to = Some ''R'', correlation_id = Some ''C''\<rparr>
      (JObj [''method'' \<mapsto> JStr ''__weakref__'', ''args'' \<mapsto> JObj Map.empty]) =
     replied_error (\<lambda>j. j) \<lparr>delivery_tag = 1\<rparr>
       \<lparr>reply_to = Some ''R'', correlation_id = Some ''C''\<rparr> ''R''
       ''Method specified does not exist: __weakref__.''"
    using serve_unknown_method [where decode_json = Inr and encode_json = "\<lambda>j. j"
      and self = "RPCServer Map.empty ''srv''"
      and props = "\<lparr>reply_to = Some ''R'', correlation_id = Some ''C''\<rparr>" and R = "''R''"
      and body = "JObj [''method'' \<mapsto> JStr ''__weakref__'', ''args'' \<mapsto> JObj Map.empty]"
      and req = "[''method'' \<mapsto> JStr ''__weakref__'', ''args'' \<mapsto> JObj Map.empty]"
      and nm = "''__weakref__''", of "\<lparr>delivery_tag = 1\<rparr>"]
    by (simp add: getattr_def RPCServer_weakref)
qed

text \<open>
  C10, as amended. The method name is looked up among all attributes of the instance.
  The unknown-method reply is produced when the name is not an attribute or is an
  attribute whose value is \<open>None\<close>. Any other attribute resolves, handler or not, and the
  run goes on to the later stages: it ends in the missing-args reply, the \<open>reply_fun\<close>
  reply, a missing-argument reply, the entry of that method, or an exception. In
  particular a callable without parameter \<open>reply_fun\<close> (as \<open>serve\<close>, \<open>setup\<close> and
  \<open>start_serving\<close>) gets the \<open>reply_fun\<close> reply when \<open>args\<close> is present.
\<close>

theorem method_resolution:
  assumes "decode_json body = Inr (JObj req)" and "reply_to props = Some R"
    and "req ''method'' = Some (JStr nm)"
  shows
   "(self nm = None \<or> self nm = Some PyNone \<longrightarrow>
       serve decode_json encode_json self method props body =
         replied_error encode_json method props R
           (''Method specified does not exist: '' @ nm @ ''.'')) \<and>
    (self nm = Some op \<and> op \<noteq> PyNone \<longrightarrow>
       serve decode_json encode_json self method props body =
         replied_error encode_json method props R
           ''Message received does not have arguments in attribute args.'' \<or>
       (\<exists>t ps b. op = PyCallable t ps b \<and>
          serve decode_json encode_json self method props body =
            replied_error encode_json method props R (''Method '' @ t @
              '' must declare a parameter 'reply_fun' that must be invoked to reply to an invokation.'')) \<or>
       (\<exists>x. serve decode_json encode_json self method props body =
          replied_error encode_json method props R
            (''Message received does not specify argument '' @ x @ '' in attribute args.'')) \<or>
       (\<exists>kw. invoked (serve decode_json encode_json self method props body) = [(nm, kw)]) \<or>
       (\<exists>e. serve decode_json encode_json self method props body = raises e)) \<and>
    (self nm = Some (PyCallable t ps b) \<and> ''reply_fun'' \<notin> set (map name ps) \<and>
     req ''args'' \<noteq> None \<longrightarrow>
       serve decode_json encode_json self method props body =
         replied_error encode_json method props R (''Method '' @ t @
           '' must declare a parameter 'reply_fun' that must be invoked to reply to an invokation.''))"
proof (intro conjI impI)
  assume "self nm = None \<or> self nm = Some PyNone"
  then have "getattr self nm PyNone = PyNone"
    by (auto simp: getattr_def)
  with assms show "serve decode_json encode_json self method props body =
         replied_error encode_json method props R
           (''Method specified does not exist: '' @ nm @ ''.'')"
    by (simp add: serve_unknown_method)
next
  assume "self nm = Some (PyCallable t ps b) \<and> ''reply_fun'' \<notin> set (map name ps) \<and>
     req ''args'' \<noteq> None"
  then obtain a where "self nm = Some (PyCallable t ps b)" "''reply_fun'' \<notin> set (map name ps)"
    "req ''args'' = Some a" by blast
  with assms show "serve decode_json encode_json self method props body =
         replied_error encode_json method props R (''Method '' @ t @
           '' must declare a parameter 'reply_fun' that must be invoked to reply to an invokation.'')"
    by (simp add: serve_no_reply_fun)
next
  let ?r = "serve decode_json encode_json self method props body"
  let ?rf = "reply encode_json R (correlation_id props) method"
  assume "self nm = Some op \<and> op \<noteq> PyNone"
  then have op: "self nm = Some op" "op \<noteq> PyNone" by simp_all
  have stage: "?r = check_args nm op (JObj req) ?rf"
    using assms op by (simp add: serve_decoded check_method_resolved)
  show "?r = replied_error encode_json method props R
           ''Message received does not have arguments in attribute args.'' \<or>
       (\<exists>t ps b. op = PyCallable t ps b \<and>
          ?r = replied_error encode_json method props R (''Method '' @ t @
              '' must declare a parameter 'reply_fun' that must be invoked to reply to an invokation.'')) \<or>
       (\<exists>x. ?r = replied_error encode_json method props R
            (''Message received does not specify argument '' @ x @ '' in attribute args.'')) \<or>
       (\<exists>kw. invoked ?r = [(nm, kw)]) \<or>
       (\<exists>e. ?r = raises e)"
  proof (cases "req ''args''")
    case None
    with assms op show ?thesis by (simp add: serve_missing_args)
  next
    case (Some a)
    then have sig: "?r = check_signature nm op a ?rf"
      using stage by (simp add: check_args_present)
    show ?thesis
    proof (cases op)
      case (PyCallable t' ps' b')
      show ?thesis
      proof (cases "''reply_fun'' \<in> set (map name ps')")
        case False
        with assms op Some PyCallable show ?thesis by (simp add: serve_no_reply_fun)
      next
        case True
        show ?thesis
        proof (cases "first_missing ps' a")
          case (Inl e)
          with True sig PyCallable have "?r = raises e" by (simp add: check_signature_def)
          then show ?thesis by blast
        next
          case (Inr m)
          show ?thesis
          proof (cases m)
            case None
            with True Inr sig PyCallable have "?r = call nm op a ?rf"
              by (simp add: check_signature_call)
            with call_cases [of nm op a ?rf] show ?thesis by auto
          next
            case (Some x)
            with True Inr sig PyCallable
            have "?r = replied_error encode_json method props R
                (''Message received does not specify argument '' @ x @ '' in attribute args.'')"
              by (simp add: check_signature_missing returns_reply_error)
            then show ?thesis by blast
          qed
        qed
      qed
    next
      case PyNone
      with op show ?thesis by simp
    next
      case PyObject
      with sig have "?r = raises TypeError" by (simp add: check_signature_def)
      then show ?thesis by blast
    next
      case PyBuiltin
      with sig have "?r = raises ValueError" by (simp add: check_signature_def)
      then show ?thesis by blast
    qed
  qed
qed

theorem method_resolution_witness:
  "serve Inr (\<lambda>j. j) (RPCServer Map.empty ''srv'') \<lparr>delivery_tag = 1\<rparr>
      \<lparr>reply_to = Some ''R'', correlation_id = Some ''C''\<rparr>
      (JObj [''method'' \<mapsto> JStr ''foo'', ''args'' \<mapsto> JObj Map.empty]) =
     \<lparr>channel = [basic_publish '''' ''R'' (Some ''C'')
        (JObj [''error'' \<mapsto> JStr ''Method specified does not exist: foo.'']), basic_ack 1],
      invoked = [], raised = None\<rparr> \<and>
   serve Inr (\<lambda>j. j) (RPCServer Map.empty ''srv'') \<lparr>delivery_tag = 1\<rparr>
      \<lparr>reply_to = Some ''R'', correlation_id = Some ''C''\<rparr>
      (JObj [''method'' \<mapsto> JStr ''serve'', ''args'' \<mapsto> JObj Map.empty]) =
     \<lparr>channel = [basic_publish '''' ''R'' (Some ''C'')
        (JObj [''error'' \<mapsto> JStr ''Method <bound method RPCServer.serve of srv> must declare a parameter 'reply_fun' that must be invoked to reply to an invokation.'']),
        basic_ack 1],
      invoked = [], raised = None\<rparr>"
proof -
  note v = method_resolution [where decode_json = Inr and encode_json = "\<lambda>j. j"
      and self = "RPCServer Map.empty ''srv''"
      and props = "\<lparr>reply_to = Some ''R'', correlation_id = Some ''C''\<rparr>" and R = "''R''"]
  have 1: "serve Inr (\<lambda>j. j) (RPCServer Map.empty ''srv'') \<lparr>delivery_tag = 1\<rparr>
      \<lparr>reply_to = Some ''R'', correlation_id = Some ''C''\<rparr>
      (JObj [''method'' \<mapsto> JStr ''foo'', ''args'' \<mapsto> JObj Map.empty]) =
     \<lparr>channel = [basic_publish '''' ''R'' (Some ''C'')
        (JObj [''error'' \<mapsto> JStr ''Method specified does not exist: foo.'']), basic_ack 1],
      invoked = [], raised = None\<rparr>"
    using v [where body = "JObj [''method'' \<mapsto> JStr ''foo'', ''args'' \<mapsto> JObj Map.empty]"
        and req = "[''method'' \<mapsto> JStr ''foo'', ''args'' \<mapsto> JObj Map.empty]"
        and nm = "''foo''", THEN conjunct1, of "\<lparr>delivery_tag = 1\<rparr>"]
    by (simp add: RPCServer_foo replied_error_def)
  have 2: "serve Inr (\<lambda>j. j) (RPCServer Map.empty ''srv'') \<lparr>delivery_tag = 1\<rparr>
      \<lparr>reply_to = Some ''R'', correlation_id = Some ''C''\<rparr>
      (JObj [''method'' \<mapsto> JStr ''serve'', ''args'' \<mapsto> JObj Map.empty]) =
     \<lparr>channel = [basic_publish '''' ''R'' (Some ''C'')
        (JObj [''error'' \<mapsto> JStr ''Method <bound method RPCServer.serve of srv> must declare a parameter 'reply_fun' that must be invoked to reply to an invokation.'']),
        basic_ack 1],
      invoked = [], raised = None\<rparr>"
    using v [where body = "JObj [''method'' \<mapsto> JStr ''serve'', ''args'' \<mapsto> JObj Map.empty]"
        and req = "[''method'' \<mapsto> JStr ''serve'', ''args'' \<mapsto> JObj Map.empty]"
        and nm = "''serve''" and t = "bound_method ''serve'' ''srv''"
        and ps = "[positional ''ch'', positional ''method'', positional ''props'', positional ''body'']"
        and b = "\<lambda>kw. []", THEN conjunct2, THEN conjunct2, of "\<lparr>delivery_tag = 1\<rparr>"]
    by (simp add: RPCServer_serve positional_sel replied_error_def bound_method_def)
  from 1 2 show ?thesis by blast
qed

end
